theory Spec2Isabelle
  imports Complex_Main "HOL-Library.Product_Lexorder"
begin

section \<open>JavaScript values used by the engine\<close>

text \<open>
  A JavaScript string is its sequence of UTF-16 code units; \<open>length\<close> counts code units,
  as \<^verbatim>\<open>String.prototype.length\<close> does. \<open>lit\<close> turns an ASCII literal of the source
  into such a sequence.
\<close>

type_synonym jsstring = "nat list"

definition lit :: "string \<Rightarrow> jsstring" where
  "lit s = map of_char s"

text \<open>
  \<^verbatim>\<open>trim()\<close> removes the white space and line terminators of ECMAScript at both ends.
\<close>

definition isWhiteSpace :: "nat \<Rightarrow> bool" where
  "isWhiteSpace c =
     (c \<in> set [9, 10, 11, 12, 13, 32, 160, 5760, 8232, 8233, 8239, 8287, 12288, 65279]
      \<or> (8192 \<le> c \<and> c \<le> 8202))"

definition trim :: "jsstring \<Rightarrow> jsstring" where
  "trim s = rev (dropWhile isWhiteSpace (rev (dropWhile isWhiteSpace s)))"

text \<open>
  \<^verbatim>\<open>toUpperCase()\<close>. \<open>upperUnits\<close> gives the upper-case form of one code unit: for
  the ASCII letters, and for every other unit whose upper-case form in Unicode holds an
  ASCII letter, namely U+0131 and U+017F (to \<^verbatim>\<open>I\<close> and \<^verbatim>\<open>S\<close>) and the units that
  the unconditional special casing expands: U+00DF to \<^verbatim>\<open>SS\<close>, U+0149, U+01F0 and
  U+1E96 to U+1E9A to a letter with a mark, and the ligatures U+FB00 to U+FB06. Any
  other unit is kept as it is. JavaScript maps the remaining lower-case letters to
  letters that are outside ASCII as well, some of them to more than one unit. The
  engine compares upper-cased text with text made of ASCII characters and suit symbols
  and reads its leading digits: a text that holds such a letter equals none of these
  texts and names no card, in JavaScript and here alike, and has the leading digits it
  had.
\<close>

definition upperUnits :: "nat \<Rightarrow> nat list" where
  "upperUnits c =
     (if 97 \<le> c \<and> c \<le> 122 then [c - 32]
      else if c = 305 then [73]
      else if c = 383 then [83]
      else if c = 223 then [83, 83]
      else if c = 329 then [700, 78]
      else if c = 496 then [74, 780]
      else if c = 7830 then [72, 817]
      else if c = 7831 then [84, 776]
      else if c = 7832 then [87, 778]
      else if c = 7833 then [89, 778]
      else if c = 7834 then [65, 702]
      else if c = 64256 then [70, 70]
      else if c = 64257 then [70, 73]
      else if c = 64258 then [70, 76]
      else if c = 64259 then [70, 70, 73]
      else if c = 64260 then [70, 70, 76]
      else if c = 64261 \<or> c = 64262 then [83, 84]
      else [c])"

definition toUpperCase :: "jsstring \<Rightarrow> jsstring" where
  "toUpperCase s = concat (map upperUnits s)"

text \<open>
  A JavaScript number: a finite value (every double is a rational; the two zeros are
  identified, as \<^verbatim>\<open>===\<close> and \<^verbatim>\<open><\<close> identify them), the two infinities, or NaN.
  The relational operators are false as soon as one side is NaN.
\<close>

datatype jsnum = Finite rat | PosInfinity | NegInfinity | NaN

fun js_less :: "jsnum \<Rightarrow> jsnum \<Rightarrow> bool" where
  "js_less NaN _ = False"
| "js_less _ NaN = False"
| "js_less (Finite a) (Finite b) = (a < b)"
| "js_less (Finite _) PosInfinity = True"
| "js_less (Finite _) NegInfinity = False"
| "js_less PosInfinity _ = False"
| "js_less NegInfinity NegInfinity = False"
| "js_less NegInfinity _ = True"

definition js_greater :: "jsnum \<Rightarrow> jsnum \<Rightarrow> bool" where
  "js_greater a b = js_less b a"

fun js_strict_eq :: "jsnum \<Rightarrow> jsnum \<Rightarrow> bool" where
  "js_strict_eq NaN _ = False"
| "js_strict_eq _ NaN = False"
| "js_strict_eq a b = (a = b)"

text \<open>The values a caller can pass where the source expects a number.\<close>

datatype jsval = JNumber jsnum | JString jsstring | JBoolean bool | JUndefined | JNull | JObject

fun typeof_is_number :: "jsval \<Rightarrow> bool" where
  "typeof_is_number (JNumber _) = True"
| "typeof_is_number _ = False"

section \<open>Card.js\<close>

text \<open>
  The keys of \<^verbatim>\<open>RANKS_MAP\<close> and \<^verbatim>\<open>SUITS_MAP\<close>, named after their \<^verbatim>\<open>name\<close> entries.
  \<^verbatim>\<open>new Card(rankCode, suitCode)\<close> reads \<^verbatim>\<open>RANKS_MAP[rankCode].value\<close>, so only these
  thirteen rank codes and four suit codes construct a card.
\<close>

datatype rank = Two | Three | Four | Five | Six | Seven | Eight | Nine | Ten
  | Jack | Queen | King | Ace

datatype suit = Clubs | Diamonds | Hearts | Spades

record Card =
  rank :: rank
  suit :: suit

fun rankCode :: "rank \<Rightarrow> jsstring" where
  "rankCode Two = lit ''2''"
| "rankCode Three = lit ''3''"
| "rankCode Four = lit ''4''"
| "rankCode Five = lit ''5''"
| "rankCode Six = lit ''6''"
| "rankCode Seven = lit ''7''"
| "rankCode Eight = lit ''8''"
| "rankCode Nine = lit ''9''"
| "rankCode Ten = lit ''T''"
| "rankCode Jack = lit ''J''"
| "rankCode Queen = lit ''Q''"
| "rankCode King = lit ''K''"
| "rankCode Ace = lit ''A''"

fun rankValue :: "rank \<Rightarrow> int" where
  "rankValue Two = 2"
| "rankValue Three = 3"
| "rankValue Four = 4"
| "rankValue Five = 5"
| "rankValue Six = 6"
| "rankValue Seven = 7"
| "rankValue Eight = 8"
| "rankValue Nine = 9"
| "rankValue Ten = 10"
| "rankValue Jack = 11"
| "rankValue Queen = 12"
| "rankValue King = 13"
| "rankValue Ace = 14"

fun suitCode :: "suit \<Rightarrow> jsstring" where
  "suitCode Clubs = lit ''C''"
| "suitCode Diamonds = lit ''D''"
| "suitCode Hearts = lit ''H''"
| "suitCode Spades = lit ''S''"

text \<open>
  The suit symbols of \<^verbatim>\<open>SUITS_MAP\<close> are each a suit character (U+2663, U+2666, U+2665,
  U+2660) followed by the variation selector U+FE0F: two code units.
\<close>

fun symbol :: "suit \<Rightarrow> jsstring" where
  "symbol Clubs = [9827, 65039]"
| "symbol Diamonds = [9830, 65039]"
| "symbol Hearts = [9829, 65039]"
| "symbol Spades = [9824, 65039]"

definition cardValue :: "Card \<Rightarrow> int" where
  "cardValue c = rankValue (rank c)"

definition rankText :: "Card \<Rightarrow> jsstring" where
  "rankText c = (if rankCode (rank c) = lit ''T'' then lit ''10'' else rankCode (rank c))"

definition code :: "Card \<Rightarrow> jsstring" where
  "code c = rankText c @ symbol (suit c)"

definition shortDisplay :: "Card \<Rightarrow> jsstring" where
  "shortDisplay c = rankCode (rank c) @ suitCode (suit c)"

text \<open>
  \<^verbatim>\<open>Object.keys\<close> lists integer-like keys first, in ascending order, then the other keys
  in insertion order.
\<close>

definition getRankCodes :: "rank list" where
  "getRankCodes =
     [Two, Three, Four, Five, Six, Seven, Eight, Nine, Ten, Jack, Queen, King, Ace]"

definition getSuitCodes :: "suit list" where
  "getSuitCodes = [Clubs, Diamonds, Hearts, Spades]"

section \<open>Deck.js\<close>

text \<open>
  \<^verbatim>\<open>reset\<close> pushes the cards suit by suit. \<^verbatim>\<open>deal\<close> pops the last card and returns
  \<^verbatim>\<open>undefined\<close> (here \<open>None\<close>) on an empty deck. \<^verbatim>\<open>shuffle\<close> is the Fisher-Yates
  loop. Its draws are an input: \<open>rnd i\<close> stands for the value of
  \<^verbatim>\<open>Math.floor(Math.random() * (i + 1))\<close> in the iteration with loop index \<open>i\<close>, an
  index from 0 to \<open>i\<close>; it is reduced modulo \<open>i + 1\<close>, so that every function is a
  source of draws.
\<close>

definition reset :: "Card list" where
  "reset = concat (map (\<lambda>s. map (\<lambda>r. \<lparr>rank = r, suit = s\<rparr>) getRankCodes) getSuitCodes)"

definition swap :: "nat \<Rightarrow> nat \<Rightarrow> 'a list \<Rightarrow> 'a list" where
  "swap i j xs = (xs[i := xs ! j])[j := xs ! i]"

fun shuffleLoop :: "(nat \<Rightarrow> nat) \<Rightarrow> nat \<Rightarrow> Card list \<Rightarrow> Card list" where
  "shuffleLoop rnd 0 cards = cards"
| "shuffleLoop rnd (Suc i) cards =
     shuffleLoop rnd i (swap (Suc i) (rnd (Suc i) mod (Suc i + 1)) cards)"

definition shuffle :: "(nat \<Rightarrow> nat) \<Rightarrow> Card list \<Rightarrow> Card list" where
  "shuffle rnd cards = shuffleLoop rnd (length cards - 1) cards"

definition deal :: "Card list \<Rightarrow> Card option \<times> Card list" where
  "deal cards = (if cards = [] then (None, []) else (Some (last cards), butlast cards))"

section \<open>Game.js\<close>

text \<open>
  \<^verbatim>\<open>Game.js\<close> is a second engine with classes of its own. Its \<^verbatim>\<open>Card\<close> is built from
  a suit letter and a rank string, the ten being \<^verbatim>\<open>'10'\<close>: \<^verbatim>\<open>card.suit\<close> is
  \<open>suitCode (suit c)\<close>, \<^verbatim>\<open>card.rank\<close> is \<open>rankText c\<close> and \<^verbatim>\<open>card.value\<close>
  (\<^verbatim>\<open>Card.getValue\<close>) is \<open>cardValue c\<close>, so the record \<open>Card\<close> serves both engines.
  Its \<^verbatim>\<open>Player\<close> is \<open>GamePlayer\<close>; a Nil bid is stored as 14. An entry of \<^verbatim>\<open>trick\<close>
  holds the player object, here the player's index in \<open>players\<close>.
\<close>

record GamePlayer =
  id' :: jsstring
  hand :: "Card list"
  bid :: int
  tricks :: int
  score :: int
  bags :: int

record Play =
  player :: nat
  card :: Card

record Game =
  players :: "GamePlayer list"
  deck :: "Card list"
  state :: string
  currentRound :: nat
  dealerIndex :: nat
  currentPlayerIndex :: nat
  bidsCollected :: nat
  spadesBroken :: bool
  trick :: "Play list"
  team1 :: int
  team2 :: int
  maxScore :: int

definition getCardByCode :: "GamePlayer \<Rightarrow> jsstring \<Rightarrow> jsstring \<Rightarrow> Card option" where
  "getCardByCode p suitStr rankStr =
     find (\<lambda>c. suitCode (suit c) = suitStr \<and> rankText c = rankStr) (hand p)"

definition createDeck :: "Card list" where
  "createDeck =
     concat (map (\<lambda>s. map (\<lambda>r. \<lparr>rank = r, suit = s\<rparr>)
                   [Ace, King, Queen, Jack, Ten, Nine, Eight, Seven, Six, Five, Four, Three, Two])
               [Spades, Hearts, Diamonds, Clubs])"

text \<open>
  \<^verbatim>\<open>dealCards\<close>: thirteen times, every player takes the last card of the deck, if
  there is one. \<^verbatim>\<open>Player.sortHand\<close> of this file compares with a table that has no
  entry for clubs, so its comparator is not an order and the resulting arrangement of a
  hand is left to the JavaScript engine: it is the parameter \<open>arrange\<close>.
\<close>

fun dealRound :: "GamePlayer list \<Rightarrow> Card list \<Rightarrow> GamePlayer list \<times> Card list" where
  "dealRound [] cards = ([], cards)"
| "dealRound (p # ps) cards =
     (if cards = [] then
        (let r = dealRound ps cards in (p # fst r, snd r))
      else
        (let r = dealRound ps (butlast cards)
         in (p\<lparr>hand := hand p @ [last cards]\<rparr> # fst r, snd r)))"

fun dealRounds :: "nat \<Rightarrow> GamePlayer list \<Rightarrow> Card list \<Rightarrow> GamePlayer list \<times> Card list" where
  "dealRounds 0 ps cards = (ps, cards)"
| "dealRounds (Suc n) ps cards =
     (let r = dealRound ps cards in dealRounds n (fst r) (snd r))"

definition dealCardsG ::
  "(nat \<Rightarrow> nat) \<Rightarrow> (Card list \<Rightarrow> Card list) \<Rightarrow> Game \<Rightarrow> Game" where
  "dealCardsG rnd arrange g =
     (let r = dealRounds 13 (players g) (shuffle rnd createDeck)
      in g\<lparr>players := map (\<lambda>p. p\<lparr>hand := arrange (hand p)\<rparr>) (fst r), deck := snd r\<rparr>)"

definition startRound :: "(nat \<Rightarrow> nat) \<Rightarrow> (Card list \<Rightarrow> Card list) \<Rightarrow> Game \<Rightarrow> Game" where
  "startRound rnd arrange g =
     (let g1 = dealCardsG rnd arrange g;
          g2 = g1\<lparr>players := map (\<lambda>p. p\<lparr>tricks := 0, bid := 0\<rparr>) (players g1)\<rparr>
      in g2\<lparr>bidsCollected := 0, spadesBroken := False, trick := [],
             currentPlayerIndex := (dealerIndex g2 + 1) mod length (players g2),
             state := ''BIDDING''\<rparr>)"

subsection \<open>Card parsing and validation\<close>

datatype inputError = InvalidFormat | NotInHand | LeadSpadesNotBroken | MustFollow

definition possibleSuits :: "jsstring list" where
  "possibleSuits = [lit ''S'', lit ''H'', lit ''D'', lit ''C'']"

definition possibleRanks :: "jsstring list" where
  "possibleRanks =
     [lit ''A'', lit ''K'', lit ''Q'', lit ''J'', lit ''9'', lit ''8'', lit ''7'', lit ''6'',
      lit ''5'', lit ''4'', lit ''3'', lit ''2'']"

text \<open>
  The parsing half of \<^verbatim>\<open>getCardFromInput\<close>: the pair (suit, rank), each the empty
  string where no case of the source assigns it. \<open>[s ! i]\<close> is the one-unit string
  \<^verbatim>\<open>cleanInput[i]\<close>.
\<close>

definition parseCardInput :: "jsstring \<Rightarrow> jsstring \<times> jsstring" where
  "parseCardInput input =
     (let cleanInput = trim (toUpperCase input)
      in if length cleanInput = 3 then
           (if take 2 cleanInput = lit ''10'' \<and> [cleanInput ! 2] \<in> set possibleSuits
            then ([cleanInput ! 2], lit ''10'')
            else if [cleanInput ! 0] \<in> set possibleSuits \<and> drop 1 cleanInput = lit ''10''
            then ([cleanInput ! 0], lit ''10'')
            else ([], []))
         else if length cleanInput = 2 then
           (if [cleanInput ! 0] \<in> set possibleRanks \<and> [cleanInput ! 1] \<in> set possibleSuits
            then ([cleanInput ! 1], [cleanInput ! 0])
            else if [cleanInput ! 0] \<in> set possibleSuits \<and> [cleanInput ! 1] \<in> set possibleRanks
            then ([cleanInput ! 0], [cleanInput ! 1])
            else ([], []))
         else ([], []))"

definition getCardFromInput :: "Game \<Rightarrow> GamePlayer \<Rightarrow> jsstring \<Rightarrow> inputError + Card" where
  "getCardFromInput g p input =
     (let suitStr = fst (parseCardInput input);
          rankStr = snd (parseCardInput input)
      in if suitStr = [] \<or> rankStr = [] then Inl InvalidFormat
         else case getCardByCode p suitStr rankStr of
           None \<Rightarrow> Inl NotInHand
         | Some foundCard \<Rightarrow>
             (let isLeading = (trick g = [])
              in if isLeading \<and> suitStr = lit ''S'' \<and> \<not> spadesBroken g
                    \<and> list_ex (\<lambda>c. suitCode (suit c) \<noteq> lit ''S'') (hand p)
                 then Inl LeadSpadesNotBroken
                 else if \<not> isLeading \<and> suitStr \<noteq> suitCode (suit (card (hd (trick g))))
                    \<and> list_ex (\<lambda>c. suitCode (suit c) = suitCode (suit (card (hd (trick g)))))
                         (hand p)
                 then Inl MustFollow
                 else Inr foundCard))"

subsection \<open>Trick winner\<close>

definition winningStep :: "suit \<Rightarrow> Play \<Rightarrow> Play \<Rightarrow> Play" where
  "winningStep leadSuit winningPlay currentPlay =
     (let currentCard = card currentPlay;
          winningCard = card winningPlay
      in if suit currentCard = Spades \<and> suit winningCard \<noteq> Spades then currentPlay
         else if suit currentCard = Spades \<and> suit winningCard = Spades then
           (if cardValue currentCard > cardValue winningCard then currentPlay else winningPlay)
         else if suit currentCard = leadSuit \<and> suit winningCard = leadSuit then
           (if cardValue currentCard > cardValue winningCard then currentPlay else winningPlay)
         else winningPlay)"

definition determineTrickWinner :: "Game \<Rightarrow> Play option \<times> Game" where
  "determineTrickWinner g =
     (if length (trick g) \<noteq> 4 then (None, g)
      else
        (let leadSuit = suit (card (trick g ! 0));
             winningPlay = foldl (winningStep leadSuit) (trick g ! 0) (drop 1 (trick g))
         in (Some winningPlay,
             if suit (card winningPlay) = Spades then g\<lparr>spadesBroken := True\<rparr> else g)))"

subsection \<open>Scoring\<close>

text \<open>
  \<^verbatim>\<open>scoreTeam\<close>, the helper of \<^verbatim>\<open>calculateRoundScores\<close>, for the partnership of the
  players at \<open>teamIndex\<close> and \<open>teamIndex + 2\<close>. \<open>nilScore\<close>, \<open>partnerScore\<close> and
  \<open>standardScore\<close> are the three branches on the bids; each gives the score delta and
  the bag total it leaves. The bags gained are split between the two players, and one
  penalty is taken when the new total is at least 10.
\<close>

definition doubleNilScore :: "GamePlayer \<Rightarrow> GamePlayer \<Rightarrow> int" where
  "doubleNilScore p1 p2 = (if tricks p1 = 0 \<and> tricks p2 = 0 then 200 else - 200)"

definition nilScore :: "GamePlayer \<Rightarrow> int \<Rightarrow> int \<times> int" where
  "nilScore nilPlayer totalBags =
     (if tricks nilPlayer = 0 then (100, totalBags)
      else (- 100, totalBags + tricks nilPlayer))"

definition partnerScore :: "GamePlayer \<Rightarrow> int \<times> int \<Rightarrow> int \<times> int" where
  "partnerScore partner acc =
     (let tricksRequired = bid partner;
          partnerTricks = tricks partner
      in if partnerTricks \<ge> tricksRequired
         then (fst acc + tricksRequired * 10, snd acc + (partnerTricks - tricksRequired))
         else (fst acc - tricksRequired * 10, snd acc))"

definition standardScore :: "int \<Rightarrow> int \<Rightarrow> int \<Rightarrow> int \<times> int" where
  "standardScore totalBid tricksTaken totalBags =
     (let tricksRequired = totalBid
      in if tricksTaken \<ge> tricksRequired
         then (tricksRequired * 10, totalBags + (tricksTaken - tricksRequired))
         else (- (tricksRequired * 10), totalBags))"

definition contractScore :: "GamePlayer \<Rightarrow> GamePlayer \<Rightarrow> int \<times> int" where
  "contractScore p1 p2 =
     (let tricksTaken = tricks p1 + tricks p2;
          totalBags = bags p1 + bags p2;
          totalBid = (if bid p1 = 14 then 0 else bid p1) + (if bid p2 = 14 then 0 else bid p2);
          p1BidIsNil = (bid p1 = 14);
          p2BidIsNil = (bid p2 = 14)
      in if p1BidIsNil \<and> p2BidIsNil then (doubleNilScore p1 p2, totalBags)
         else if p1BidIsNil \<or> p2BidIsNil then
           (let nilPlayer = (if p1BidIsNil then p1 else p2);
                partner = (if p1BidIsNil then p2 else p1)
            in partnerScore partner (nilScore nilPlayer totalBags))
         else standardScore totalBid tricksTaken totalBags)"

definition addTeamScore :: "nat \<Rightarrow> int \<Rightarrow> Game \<Rightarrow> Game" where
  "addTeamScore teamIndex scoreDelta g =
     (if teamIndex = 0 then g\<lparr>team1 := team1 g + scoreDelta\<rparr>
      else g\<lparr>team2 := team2 g + scoreDelta\<rparr>)"

definition scoreTeam :: "nat \<Rightarrow> Game \<Rightarrow> Game" where
  "scoreTeam teamIndex g =
     (let p1 = players g ! teamIndex;
          p2 = players g ! (teamIndex + 2);
          scoreDelta = fst (contractScore p1 p2);
          bagsGained = snd (contractScore p1 p2) - (bags p1 + bags p2);
          p1a = p1\<lparr>bags := bags p1 + \<lfloor>of_int bagsGained / (2 :: rat)\<rfloor>\<rparr>;
          p2a = p2\<lparr>bags := bags p2 + \<lceil>of_int bagsGained / (2 :: rat)\<rceil>\<rparr>;
          totalBags = bags p1a + bags p2a;
          penalty = (totalBags \<ge> 10);
          p1b = (if penalty then p1a\<lparr>bags := \<lfloor>of_int (totalBags - 10) / (2 :: rat)\<rfloor>\<rparr>
                 else p1a);
          p2b = (if penalty then p2a\<lparr>bags := \<lceil>of_int (totalBags - 10) / (2 :: rat)\<rceil>\<rparr>
                 else p2a)
      in addTeamScore teamIndex (if penalty then scoreDelta - 100 else scoreDelta)
           (g\<lparr>players := (players g)[teamIndex := p1b, teamIndex + 2 := p2b]\<rparr>))"

text \<open>
  \<^verbatim>\<open>calculateRoundScores\<close> returns \<^verbatim>\<open>isGameOver\<close> with the state it leaves. With
  fewer than four players \<^verbatim>\<open>scoreTeam\<close> reads a property of \<^verbatim>\<open>undefined\<close> and throws
  (\<open>None\<close>).
\<close>

definition isGameOver :: "Game \<Rightarrow> bool" where
  "isGameOver g =
     (team1 g \<ge> maxScore g \<or> team2 g \<ge> maxScore g \<or> team1 g \<le> - 200 \<or> team2 g \<le> - 200)"

definition calculateRoundScores :: "Game \<Rightarrow> (bool \<times> Game) option" where
  "calculateRoundScores g =
     (if length (players g) < 4 then None
      else (let g' = scoreTeam 1 (scoreTeam 0 g) in Some (isGameOver g', g')))"

section \<open>Player.js\<close>

text \<open>
  The number stored as a bid is a type parameter: the text entry point stores the integer
  it parsed, the button entry point stores the JavaScript number it was handed. A bid of
  \<^verbatim>\<open>null\<close> is \<open>None\<close>.

  \<^verbatim>\<open>Player.js\<close> keeps the tricks of a round in \<^verbatim>\<open>tricksTaken\<close>. \<^verbatim>\<open>GameManager\<close>
  reads \<^verbatim>\<open>tricksWon\<close> instead, a property that \<^verbatim>\<open>Player.js\<close> does not declare and that
  no code of the repository assigns: on a player built by \<^verbatim>\<open>new Player\<close> it is
  \<^verbatim>\<open>undefined\<close>, here \<open>None\<close>. The field is there for these reads.
\<close>

record 'n Player =
  discordId :: jsstring
  hand :: "Card list"
  bid :: "'n option"
  isNil :: bool
  tricksTaken :: int
  tricksWon :: "int option"
  score :: int
  bags :: int
  team :: nat

instantiation jsnum :: zero
begin
definition zero_jsnum :: jsnum where
  "zero_jsnum = Finite 0"
instance ..
end

fun findIndex :: "('a \<Rightarrow> bool) \<Rightarrow> 'a list \<Rightarrow> nat option" where
  "findIndex P [] = None"
| "findIndex P (x # xs) = (if P x then Some 0 else map_option Suc (findIndex P xs))"

definition addCard :: "Card \<Rightarrow> 'n Player \<Rightarrow> 'n Player" where
  "addCard c p = p\<lparr>hand := hand p @ [c]\<rparr>"

definition setBid :: "'n::zero \<Rightarrow> 'n Player \<Rightarrow> 'n Player" where
  "setBid bidAmount p = p\<lparr>bid := Some bidAmount, isNil := (bidAmount = 0)\<rparr>"

definition resetForNewRound :: "'n Player \<Rightarrow> 'n Player" where
  "resetForNewRound p = p\<lparr>hand := [], bid := None, isNil := False, tricksTaken := 0\<rparr>"

text \<open>
  \<^verbatim>\<open>playCard\<close> splices the first card whose \<^verbatim>\<open>code\<close> is the upper-cased argument out of
  the hand and returns it, or returns \<^verbatim>\<open>null\<close> and leaves the hand alone.
\<close>

definition playCard :: "jsstring \<Rightarrow> 'n Player \<Rightarrow> Card option \<times> 'n Player" where
  "playCard cardCode p =
     (case findIndex (\<lambda>c. code c = toUpperCase cardCode) (hand p) of
        None \<Rightarrow> (None, p)
      | Some i \<Rightarrow> (Some (hand p ! i), p\<lparr>hand := take i (hand p) @ drop (Suc i) (hand p)\<rparr>))"

text \<open>
  \<^verbatim>\<open>sortHand\<close>: suits in the order S, H, D, C, and within a suit the higher value first.
  \<^verbatim>\<open>Array.prototype.sort\<close> is stable, as \<open>sort_key\<close> is.
\<close>

fun suitOrder :: "suit \<Rightarrow> int" where
  "suitOrder Spades = 4"
| "suitOrder Hearts = 3"
| "suitOrder Diamonds = 2"
| "suitOrder Clubs = 1"

definition handKey :: "Card \<Rightarrow> int \<times> int" where
  "handKey c = (- suitOrder (suit c), - cardValue c)"

definition sortHand :: "'n Player \<Rightarrow> 'n Player" where
  "sortHand p = p\<lparr>hand := sort_key handKey (hand p)\<rparr>"

section \<open>GameManager.js\<close>

text \<open>
  The state of one game. \<^verbatim>\<open>publicAnnounce\<close> and \<^verbatim>\<open>privatePrompt\<close> only send text
  and are left out; the text a refusal sends names its \<open>error\<close>. A method that returns
  \<^verbatim>\<open>true\<close> is \<open>Done\<close> with the state it leaves, one that returns \<^verbatim>\<open>false\<close> (or an
  error object) is \<open>Refused\<close> with the state it leaves, and one that ends in a
  \<^verbatim>\<open>TypeError\<close> (a property read on \<^verbatim>\<open>undefined\<close>, a call of a method that does not
  exist) is \<open>Threw\<close> with the state in which the exception leaves the game.
  \<open>stateOf\<close> is the state a call leaves, however it ended.
\<close>

record TrickEntry =
  playerId :: jsstring
  card :: Card

record 'n GameManager =
  deck :: "Card list"
  players :: "'n Player list"
  targetScore :: int
  isGameActive :: bool
  state :: string
  currentPlayerIndex :: nat
  bidsTaken :: nat
  isBiddingActive :: bool
  isTrickActive :: bool
  currentTrick :: "TrickEntry list"
  trickSuit :: "suit option"
  spadesBroken :: bool

datatype error = LobbyFull | NeedsFourPlayers | BiddingInactive | NotYourTurn | InvalidBid
  | TrickInactive | NotRegistered | CardNotInHand | SpadesNotBroken | MustFollowSuit
  | InternalError

datatype 's result = Done 's | Refused error 's | Threw 's

fun stateOf :: "'s result \<Rightarrow> 's" where
  "stateOf (Done s) = s"
| "stateOf (Refused e s) = s"
| "stateOf (Threw s) = s"

definition constructor :: "int \<Rightarrow> 'n GameManager" where
  "constructor target =
     \<lparr>deck = reset, players = [], targetScore = target, isGameActive = False,
      state = ''LOBBY'', currentPlayerIndex = 0, bidsTaken = 0, isBiddingActive = False,
      isTrickActive = False, currentTrick = [], trickSuit = None, spadesBroken = False\<rparr>"

definition getPlayerById :: "'n GameManager \<Rightarrow> jsstring \<Rightarrow> nat option" where
  "getPlayerById s pid = findIndex (\<lambda>p. discordId p = pid) (players s)"

definition peekCardInHand :: "'n Player \<Rightarrow> jsstring \<Rightarrow> Card option" where
  "peekCardInHand p cardCode =
     find (\<lambda>c. toUpperCase (code c) = toUpperCase (trim cardCode)) (hand p)"

text \<open>
  \<^verbatim>\<open>getHandDisplay\<close> sorts the hand it prints; the sort is its only effect on the game.
  Players are objects shared by reference; here a player is its index in \<open>players\<close>
  (\<open>getPlayerById\<close> returns the index of the first player with the id).
\<close>

definition getHandDisplay :: "nat \<Rightarrow> 'n GameManager \<Rightarrow> 'n GameManager" where
  "getHandDisplay i s = s\<lparr>players := (players s)[i := sortHand (players s ! i)]\<rparr>"

definition addPlayer :: "jsstring \<Rightarrow> 'n GameManager \<Rightarrow> 'n GameManager result" where
  "addPlayer pid s =
     (if length (players s) \<ge> 4 then Refused LobbyFull s
      else Done (s\<lparr>players := players s @
        [\<lparr>discordId = pid, hand = [], bid = None, isNil = False, tricksTaken = 0,
          tricksWon = None, score = 0, bags = 0,
          team = (if length (players s) mod 2 = 0 then 2 else 1)\<rparr>]\<rparr>))"

text \<open>
  \<^verbatim>\<open>dealCards\<close>: every player is reset, then 52 cards are popped and pushed onto the
  hands in turn, then every hand is displayed (sorted). With no player the first
  \<^verbatim>\<open>addCard\<close> throws; with fewer than 52 cards \<^verbatim>\<open>undefined\<close> is pushed onto a hand and the
  display of that hand throws: both are \<open>None\<close>.
\<close>

fun dealLoop :: "nat \<Rightarrow> nat \<Rightarrow> 'n GameManager \<Rightarrow> 'n GameManager option" where
  "dealLoop 0 i s = Some s"
| "dealLoop (Suc k) i s =
     (if players s = [] then None
      else case deal (deck s) of
        (None, _) \<Rightarrow> None
      | (Some c, rest) \<Rightarrow>
          dealLoop k (Suc i)
            (s\<lparr>deck := rest,
               players := (players s)[i mod length (players s) :=
                 addCard c (players s ! (i mod length (players s)))]\<rparr>))"

definition dealCards :: "'n GameManager \<Rightarrow> 'n GameManager option" where
  "dealCards s =
     (case dealLoop 52 0 (s\<lparr>players := map resetForNewRound (players s)\<rparr>) of
        None \<Rightarrow> None
      | Some s' \<Rightarrow> Some (s'\<lparr>players := map sortHand (players s')\<rparr>))"

definition startBidding :: "'n GameManager \<Rightarrow> 'n GameManager option" where
  "startBidding s =
     (if currentPlayerIndex s < length (players s)
      then Some (s\<lparr>state := ''BIDDING'', isBiddingActive := True, bidsTaken := 0\<rparr>)
      else None)"

text \<open>
  \<^verbatim>\<open>startGame\<close>. With four players and the 52 cards of a fresh deck \<^verbatim>\<open>dealCards\<close> does
  not throw. \<^verbatim>\<open>startBidding\<close> throws on \<^verbatim>\<open>startingPlayer.username\<close>, after its three
  assignments, when no player sits at \<open>currentPlayerIndex\<close>.
\<close>

definition startGame :: "(nat \<Rightarrow> nat) \<Rightarrow> 'n GameManager \<Rightarrow> 'n GameManager result" where
  "startGame rnd s =
     (if length (players s) \<noteq> 4 then Refused NeedsFourPlayers s
      else case dealCards (s\<lparr>isGameActive := True, deck := shuffle rnd reset\<rparr>) of
        None \<Rightarrow> Threw (s\<lparr>isGameActive := True, deck := shuffle rnd reset\<rparr>)
      | Some s' \<Rightarrow>
          (case startBidding s' of
             None \<Rightarrow> Threw (s'\<lparr>state := ''BIDDING'', isBiddingActive := True, bidsTaken := 0\<rparr>)
           | Some s'' \<Rightarrow> Done s''))"

subsection \<open>Bidding\<close>

text \<open>
  \<^verbatim>\<open>parseInt(value, 10)\<close>: leading white space is skipped, one sign is read, then the
  longest run of decimal digits; no digit gives NaN (\<open>None\<close>). The digits are read
  exactly; JavaScript rounds a value beyond 2^53 to a double, which no comparison with
  1 and 13 can tell apart.
\<close>

definition isDigit :: "nat \<Rightarrow> bool" where
  "isDigit c = (48 \<le> c \<and> c \<le> 57)"

definition digitsValue :: "jsstring \<Rightarrow> int" where
  "digitsValue ds = foldl (\<lambda>acc c. 10 * acc + (int c - 48)) 0 ds"

definition parseInt :: "jsstring \<Rightarrow> int option" where
  "parseInt str =
     (let t = dropWhile isWhiteSpace str;
          negative = (t \<noteq> [] \<and> hd t = 45);
          u = (if t \<noteq> [] \<and> (hd t = 45 \<or> hd t = 43) then tl t else t);
          z = takeWhile isDigit u
      in if z = [] then None
         else Some (if negative then - digitsValue z else digitsValue z))"

datatype parsedBid = NIL | Num int

definition validateBid :: "jsstring \<Rightarrow> parsedBid option" where
  "validateBid rawBidValue =
     (let v = toUpperCase (trim rawBidValue)
      in if v = lit ''NIL'' then Some NIL
         else case parseInt v of
           None \<Rightarrow> None
         | Some num \<Rightarrow> if num \<ge> 1 \<and> num \<le> 13 then Some (Num num) else None)"

text \<open>
  \<^verbatim>\<open>sendBidPrompt\<close> sends text, reading \<^verbatim>\<open>player.username\<close>: it throws when there
  is no such player. \<^verbatim>\<open>sendPlayCardPrompt\<close>: with cards in \<^verbatim>\<open>currentTrick\<close> it builds
  the display of the trick and reads \<^verbatim>\<open>Card.CARD_EMOJIS[ledSuitCode]\<close>; the class
  \<^verbatim>\<open>Card\<close> of \<^verbatim>\<open>Card.js\<close> has no \<^verbatim>\<open>CARD_EMOJIS\<close>, so this read throws, before
  anything is changed. With an empty trick it reads \<^verbatim>\<open>player.username\<close> and displays,
  and so sorts, the hand of the player it prompts.
\<close>

definition sendPlayCardPrompt :: "nat \<Rightarrow> 'n GameManager \<Rightarrow> 'n GameManager result" where
  "sendPlayCardPrompt i s =
     (if currentTrick s \<noteq> [] then Threw s
      else if \<not> i < length (players s) then Threw s
      else Done (getHandDisplay i s))"

datatype phase = BidPhase | TrickPhase

definition advanceTurn :: "phase \<Rightarrow> 'n GameManager \<Rightarrow> 'n GameManager result" where
  "advanceTurn ph s =
     (let s' = s\<lparr>currentPlayerIndex := (currentPlayerIndex s + 1) mod length (players s)\<rparr>
      in case ph of
           BidPhase \<Rightarrow>
             (if currentPlayerIndex s' < length (players s') then Done s' else Threw s')
         | TrickPhase \<Rightarrow> sendPlayCardPrompt (currentPlayerIndex s') s')"

definition startTricks :: "'n GameManager \<Rightarrow> 'n GameManager result" where
  "startTricks s =
     (let s' = s\<lparr>isTrickActive := True, currentTrick := [], trickSuit := None\<rparr>
      in if \<not> currentPlayerIndex s' < length (players s') then Threw s'
         else sendPlayCardPrompt (currentPlayerIndex s') s')"

definition endBidding :: "'n GameManager \<Rightarrow> 'n GameManager result" where
  "endBidding s = startTricks (s\<lparr>isBiddingActive := False\<rparr>)"

text \<open>
  The part \<^verbatim>\<open>processBid\<close> and \<^verbatim>\<open>tryPlaceBid\<close> share, \<open>placeBid\<close>: the bid is
  recorded on the current player, \<open>bidsTaken\<close> is incremented, and the turn advances
  or bidding ends. \<open>recordBid\<close> is the state this leaves.
\<close>

definition placeBid :: "'n::zero \<Rightarrow> 'n GameManager \<Rightarrow> 'n GameManager result" where
  "placeBid bidAmount s =
     (let i = currentPlayerIndex s;
          s1 = s\<lparr>players := (players s)[i := setBid bidAmount (players s ! i)],
                 bidsTaken := bidsTaken s + 1\<rparr>
      in if bidsTaken s1 < length (players s1) then advanceTurn BidPhase s1
         else endBidding s1)"

definition recordBid :: "'n::zero \<Rightarrow> 'n GameManager \<Rightarrow> 'n GameManager" where
  "recordBid bidAmount s = stateOf (placeBid bidAmount s)"

definition processBid :: "jsstring \<Rightarrow> jsstring \<Rightarrow> int GameManager \<Rightarrow> int GameManager result"
  where
  "processBid pid rawBidValue s =
     (if \<not> isBiddingActive s then Refused BiddingInactive s
      else if \<not> currentPlayerIndex s < length (players s) then Threw s
      else if discordId (players s ! currentPlayerIndex s) \<noteq> pid then Refused NotYourTurn s
      else case validateBid rawBidValue of
        None \<Rightarrow> Refused InvalidBid s
      | Some parsed \<Rightarrow> placeBid (case parsed of NIL \<Rightarrow> 0 | Num n \<Rightarrow> n) s)"

definition tryPlaceBid ::
  "jsstring \<Rightarrow> jsval \<Rightarrow> jsnum GameManager \<Rightarrow> jsnum GameManager result" where
  "tryPlaceBid pid bidAmount s =
     (if \<not> isBiddingActive s \<or> state s \<noteq> ''BIDDING'' then Refused BiddingInactive s
      else if \<not> currentPlayerIndex s < length (players s) then Threw s
      else if discordId (players s ! currentPlayerIndex s) \<noteq> pid then Refused NotYourTurn s
      else case bidAmount of
        JNumber n \<Rightarrow>
          if js_less n (Finite 0) \<or> js_greater n (Finite 13) then Refused InvalidBid s
          else placeBid n s
      | _ \<Rightarrow> Refused InvalidBid s)"

subsection \<open>Trick play\<close>

text \<open>
  \<^verbatim>\<open>getWinnerOfTrick\<close>: \<^verbatim>\<open>reduce\<close> with the first entry as the initial value, so the
  callback runs on every entry, the first included. On an empty trick it returns
  \<^verbatim>\<open>undefined\<close>.
\<close>

definition trickStep :: "suit option \<Rightarrow> TrickEntry \<Rightarrow> TrickEntry \<Rightarrow> TrickEntry" where
  "trickStep ledSuitCode winningEntry currentEntry =
     (let winningCard = card winningEntry;
          currentCard = card currentEntry;
          isWinningCardSpade = (suit winningCard = Spades);
          isCurrentCardSpade = (suit currentCard = Spades)
      in if isCurrentCardSpade \<and> \<not> isWinningCardSpade then currentEntry
         else if isWinningCardSpade \<and> \<not> isCurrentCardSpade then winningEntry
         else if isCurrentCardSpade \<and> isWinningCardSpade then
           (if cardValue currentCard > cardValue winningCard then currentEntry
            else winningEntry)
         else if Some (suit currentCard) = ledSuitCode then
           (if Some (suit winningCard) \<noteq> ledSuitCode then currentEntry
            else if cardValue currentCard > cardValue winningCard then currentEntry
            else winningEntry)
         else winningEntry)"

definition getWinnerOfTrick :: "suit option \<Rightarrow> TrickEntry list \<Rightarrow> TrickEntry option" where
  "getWinnerOfTrick ledSuitCode plays =
     (case plays of
        [] \<Rightarrow> None
      | e # _ \<Rightarrow> Some (foldl (trickStep ledSuitCode) e plays))"

subsection \<open>Scoring and round management\<close>

text \<open>
  \<^verbatim>\<open>endRound\<close> groups the players by \<^verbatim>\<open>team\<close> in an object; \<^verbatim>\<open>for ... in\<close> visits
  its integer keys in ascending order, and each group lists its players in seat order.
  A \<^verbatim>\<open>null\<close> bid adds 0 to a sum. The tricks are read from \<^verbatim>\<open>tricksWon\<close>: a sum or a
  difference with \<^verbatim>\<open>undefined\<close> in it is NaN, here \<open>None\<close>, NaN is not \<^verbatim>\<open>>=\<close> any
  number, and \<^verbatim>\<open>undefined === 0\<close> is false.
\<close>

definition bidNumber :: "int Player \<Rightarrow> int" where
  "bidNumber p = (case bid p of None \<Rightarrow> 0 | Some b \<Rightarrow> b)"

fun addTricks :: "int option \<Rightarrow> int option \<Rightarrow> int option" where
  "addTricks (Some a) (Some b) = Some (a + b)"
| "addTricks _ _ = None"

fun subTricks :: "int option \<Rightarrow> int option \<Rightarrow> int option" where
  "subTricks (Some a) (Some b) = Some (a - b)"
| "subTricks _ _ = None"

definition teamIds :: "'n Player list \<Rightarrow> nat list" where
  "teamIds ps = sorted_list_of_set (set (map team ps))"

definition onTeam :: "nat \<Rightarrow> 'n Player list \<Rightarrow> 'n Player list" where
  "onTeam teamId ps = filter (\<lambda>p. team p = teamId) ps"

definition updateFirstOnTeam ::
  "nat \<Rightarrow> ('n Player \<Rightarrow> 'n Player) \<Rightarrow> 'n Player list \<Rightarrow> 'n Player list" where
  "updateFirstOnTeam teamId f ps =
     (case findIndex (\<lambda>p. team p = teamId) ps of
        None \<Rightarrow> ps
      | Some i \<Rightarrow> ps[i := f (ps ! i)])"

text \<open>The body of the \<^verbatim>\<open>for (const teamId in teams)\<close> loop of \<^verbatim>\<open>endRound\<close>.\<close>

definition scoreTeamContract ::
  "nat \<times> int \<times> int option \<Rightarrow> int Player list \<Rightarrow> int Player list" where
  "scoreTeamContract entry ps =
     (let teamId = fst entry;
          totalBid = fst (snd entry);
          totalTricks = snd (snd entry);
          nilPlayers = filter isNil (onTeam teamId ps);
          totalNilTricksWon = foldl addTricks (Some 0) (map tricksWon nilPlayers);
          ps1 = map (\<lambda>p. if team p = teamId \<and> isNil p
                          then (if tricksWon p = Some 0 then p\<lparr>score := score p + 100\<rparr>
                                else p\<lparr>score := score p - 100\<rparr>)
                          else p) ps;
          standardBid = totalBid;
          standardTricks = subTricks totalTricks totalNilTricksWon;
          made = (case standardTricks of None \<Rightarrow> False | Some t \<Rightarrow> t \<ge> standardBid);
          teamScoreChange = (if made then standardBid * 10 else - (standardBid * 10));
          teamBags = (case standardTricks of
                        None \<Rightarrow> 0
                      | Some t \<Rightarrow> if t \<ge> standardBid then t - standardBid else 0);
          ps2 = map (\<lambda>p. if team p = teamId then p\<lparr>score := score p + teamScoreChange\<rparr>
                          else p) ps1
      in updateFirstOnTeam teamId (\<lambda>p. p\<lparr>bags := bags p + teamBags\<rparr>) ps2)"

definition teamTotals :: "int Player list \<Rightarrow> (nat \<times> int \<times> int option) list" where
  "teamTotals ps =
     map (\<lambda>teamId. (teamId, sum_list (map bidNumber (onTeam teamId ps)),
                     foldl addTricks (Some 0) (map tricksWon (onTeam teamId ps))))
       (teamIds ps)"

definition scoreContracts :: "int Player list \<Rightarrow> int Player list" where
  "scoreContracts ps = foldl (\<lambda>acc entry. scoreTeamContract entry acc) ps (teamTotals ps)"

text \<open>
  \<^verbatim>\<open>calculateAndApplyBags\<close>. \<^verbatim>\<open>totalBags % 10\<close> is taken of a total that is at least
  10, where JavaScript's remainder is \<open>mod\<close>.
\<close>

definition applyTeamBags :: "nat \<Rightarrow> 'n Player list \<Rightarrow> 'n Player list" where
  "applyTeamBags teamId ps =
     (let totalBags = sum_list (map bags (onTeam teamId ps))
      in if totalBags \<ge> 10 then
           (let bagPenalty = \<lfloor>of_int totalBags / (10 :: rat)\<rfloor> * 100;
                remainingBags = totalBags mod 10;
                ps1 = map (\<lambda>p. if team p = teamId
                                then p\<lparr>score := score p - bagPenalty, bags := 0\<rparr>
                                else p) ps
            in updateFirstOnTeam teamId (\<lambda>p. p\<lparr>bags := remainingBags\<rparr>) ps1)
         else ps)"

definition calculateAndApplyBags :: "'n Player list \<Rightarrow> 'n Player list" where
  "calculateAndApplyBags ps = foldl (\<lambda>acc teamId. applyTeamBags teamId acc) ps (teamIds ps)"

definition teamScore :: "nat \<Rightarrow> 'n Player list \<Rightarrow> rat" where
  "teamScore teamId ps = of_int (sum_list (map score (onTeam teamId ps))) / 2"

definition teamBagTotal :: "nat \<Rightarrow> 'n Player list \<Rightarrow> int" where
  "teamBagTotal teamId ps = sum_list (map bags (onTeam teamId ps))"

definition announceTeamScores :: "'n GameManager \<Rightarrow> rat \<times> rat" where
  "announceTeamScores s = (teamScore 1 (players s), teamScore 2 (players s))"

definition checkGameEnd :: "'n GameManager \<Rightarrow> rat \<times> rat \<Rightarrow> bool" where
  "checkGameEnd s scores =
     (fst scores \<ge> of_int (targetScore s) \<or> snd scores \<ge> of_int (targetScore s))"

definition startNextRound :: "(nat \<Rightarrow> nat) \<Rightarrow> 'n GameManager \<Rightarrow> 'n GameManager option" where
  "startNextRound rnd s =
     (case dealCards
             (s\<lparr>currentPlayerIndex := (currentPlayerIndex s + 1) mod length (players s),
                deck := shuffle rnd reset\<rparr>) of
        None \<Rightarrow> None
      | Some s' \<Rightarrow> startBidding s')"

definition endRound :: "(nat \<Rightarrow> nat) \<Rightarrow> int GameManager \<Rightarrow> int GameManager option" where
  "endRound rnd s =
     (let s1 = s\<lparr>isTrickActive := False\<rparr>;
          s2 = s1\<lparr>players := calculateAndApplyBags (scoreContracts (players s1))\<rparr>;
          finalScores = announceTeamScores s2
      in if checkGameEnd s2 finalScores then Some s2 else startNextRound rnd s2)"

text \<open>
  \<^verbatim>\<open>endTrick\<close> begins with \<^verbatim>\<open>winner.addTrick()\<close> when the winner is a player of the
  game. \<^verbatim>\<open>Player.js\<close> defines no \<^verbatim>\<open>addTrick\<close>, so the call throws a \<^verbatim>\<open>TypeError\<close>. When
  no player has the id, the method throws on the \<^verbatim>\<open>card\<close> of the entry it does not find
  in the trick or on \<^verbatim>\<open>winner.username\<close>. Either way it throws before it has changed
  anything, and the statements that follow (announcing the winner, ending the round
  after the last trick, emptying \<^verbatim>\<open>currentTrick\<close> and making the winner lead) never run.
  \<^verbatim>\<open>evaluateTrick\<close> throws on the \<^verbatim>\<open>playerId\<close> of \<^verbatim>\<open>undefined\<close> when the trick is
  empty.
\<close>

definition endTrick :: "jsstring \<Rightarrow> 'n GameManager \<Rightarrow> 'n GameManager result" where
  "endTrick winnerId s =
     (case getPlayerById s winnerId of
        Some w \<Rightarrow> Threw s
      | None \<Rightarrow> Threw s)"

definition evaluateTrick :: "'n GameManager \<Rightarrow> 'n GameManager result" where
  "evaluateTrick s =
     (case getWinnerOfTrick (trickSuit s) (currentTrick s) of
        None \<Rightarrow> Threw s
      | Some winningEntry \<Rightarrow> endTrick (playerId winningEntry) s)"

text \<open>
  \<^verbatim>\<open>processCardPlay\<close>. A player who must follow suit and does not is to be told the led
  suit with \<^verbatim>\<open>Card.CARD_EMOJIS[this.trickSuit]\<close>, a read that throws (see
  \<^verbatim>\<open>sendPlayCardPrompt\<close>) before the refusal is sent. After an accepted card the method
  ends in \<^verbatim>\<open>evaluateTrick\<close> or in \<^verbatim>\<open>advanceTurn('trick')\<close>.
\<close>

definition processCardPlay ::
  "jsstring \<Rightarrow> jsstring \<Rightarrow> 'n GameManager \<Rightarrow> 'n GameManager result" where
  "processCardPlay pid rawCard s =
     (if \<not> isTrickActive s then Refused TrickInactive s
      else case getPlayerById s pid of
        None \<Rightarrow> Refused NotRegistered s
      | Some ix \<Rightarrow>
          if \<not> currentPlayerIndex s < length (players s) then Threw s
          else if discordId (players s ! currentPlayerIndex s) \<noteq> pid then Refused NotYourTurn s
          else case peekCardInHand (players s ! ix) rawCard of
            None \<Rightarrow> Refused CardNotInHand (getHandDisplay ix s)
          | Some cardToCheck \<Rightarrow>
              if currentTrick s = [] \<and> suit cardToCheck = Spades \<and> \<not> spadesBroken s
                 \<and> \<not> list_all (\<lambda>c. suit c = Spades) (hand (players s ! ix))
              then Refused SpadesNotBroken s
              else if currentTrick s \<noteq> [] \<and> Some (suit cardToCheck) \<noteq> trickSuit s
                 \<and> list_ex (\<lambda>c. Some (suit c) = trickSuit s) (hand (players s ! ix))
              then Threw s
              else
                (let s1 = (if currentTrick s = [] then s\<lparr>trickSuit := Some (suit cardToCheck)\<rparr>
                           else s)
                 in case playCard (toUpperCase (trim rawCard)) (players s1 ! ix) of
                   (None, _) \<Rightarrow> Refused InternalError s1
                 | (Some playedCard, p') \<Rightarrow>
                     (let s2 = s1\<lparr>players := (players s1)[ix := p'],
                                   currentTrick := currentTrick s1 @
                                     [\<lparr>playerId = pid, card = playedCard\<rparr>]\<rparr>;
                          s3 = (if suit playedCard = Spades \<and> trickSuit s2 \<noteq> Some Spades
                                   \<and> \<not> spadesBroken s2
                                then s2\<lparr>spadesBroken := True\<rparr> else s2)
                      in if length (currentTrick s3) = length (players s3)
                         then evaluateTrick s3
                         else advanceTurn TrickPhase s3)))"

section \<open>Notions of the specification\<close>

text \<open>
  The key by which the specification ranks the plays of a trick:
  \<^verbatim>\<open>(isSpade, isSpade ? rank : (suit == ledSuit ? rank : -1))\<close>, pairs being compared
  lexicographically with \<open>False < True\<close>.
\<close>

definition trickKey :: "suit \<Rightarrow> Card \<Rightarrow> bool \<times> int" where
  "trickKey ledSuit c =
     (suit c = Spades,
      if suit c = Spades then cardValue c else if suit c = ledSuit then cardValue c else - 1)"

text \<open>The trick of the specification's example: 2 of clubs led, then K and A of spades, then 9 of clubs.\<close>

definition exampleTrick :: "TrickEntry list" where
  "exampleTrick =
     [\<lparr>playerId = lit ''P1'', card = \<lparr>rank = Two, suit = Clubs\<rparr>\<rparr>,
      \<lparr>playerId = lit ''P2'', card = \<lparr>rank = King, suit = Spades\<rparr>\<rparr>,
      \<lparr>playerId = lit ''P3'', card = \<lparr>rank = Ace, suit = Spades\<rparr>\<rparr>,
      \<lparr>playerId = lit ''P4'', card = \<lparr>rank = Nine, suit = Clubs\<rparr>\<rparr>]"

definition examplePlays :: "Play list" where
  "examplePlays =
     [\<lparr>player = 0, Play.card = \<lparr>rank = Two, suit = Clubs\<rparr>\<rparr>,
      \<lparr>player = 1, Play.card = \<lparr>rank = King, suit = Spades\<rparr>\<rparr>,
      \<lparr>player = 2, Play.card = \<lparr>rank = Ace, suit = Spades\<rparr>\<rparr>,
      \<lparr>player = 3, Play.card = \<lparr>rank = Nine, suit = Clubs\<rparr>\<rparr>]"

definition emptyGame :: Game where
  "emptyGame =
     \<lparr>Game.players = [], Game.deck = [], Game.state = ''INIT'', currentRound = 1,
      dealerIndex = 0, Game.currentPlayerIndex = 0, bidsCollected = 0,
      Game.spadesBroken = False, trick = [], team1 = 0, team2 = 0, maxScore = 500\<rparr>"

text \<open>
  Small states for the examples: four seated players with two cards each, during bidding
  (\<open>smallTable\<close>) and with trick play open and nothing led (\<open>playTable\<close>); and a
  player of \<^verbatim>\<open>Game.js\<close> holding the ace of spades and the ten of hearts.
\<close>

definition seatPlayer :: "string \<Rightarrow> nat \<Rightarrow> Card list \<Rightarrow> 'n Player" where
  "seatPlayer name t h =
     \<lparr>discordId = lit name, hand = h, bid = None, isNil = False, tricksTaken = 0,
      tricksWon = None, score = 0, bags = 0, team = t\<rparr>"

definition smallTable :: "'n GameManager" where
  "smallTable =
     \<lparr>deck = [],
      players =
        [seatPlayer ''ann'' 2 [\<lparr>rank = Ace, suit = Spades\<rparr>, \<lparr>rank = Ten, suit = Hearts\<rparr>],
         seatPlayer ''bob'' 1 [\<lparr>rank = King, suit = Spades\<rparr>, \<lparr>rank = Two, suit = Spades\<rparr>],
         seatPlayer ''cat'' 2 [\<lparr>rank = Nine, suit = Hearts\<rparr>, \<lparr>rank = Three, suit = Clubs\<rparr>],
         seatPlayer ''dan'' 1 [\<lparr>rank = Queen, suit = Diamonds\<rparr>, \<lparr>rank = Four, suit = Clubs\<rparr>]],
      targetScore = 500, isGameActive = True, state = ''BIDDING'', currentPlayerIndex = 0,
      bidsTaken = 0, isBiddingActive = True, isTrickActive = False, currentTrick = [],
      trickSuit = None, spadesBroken = False\<rparr>"

definition playTable :: "int GameManager" where
  "playTable = smallTable\<lparr>isBiddingActive := False, isTrickActive := True, bidsTaken := 4\<rparr>"

definition gameAnn :: GamePlayer where
  "gameAnn =
     \<lparr>id' = lit ''ann'',
      GamePlayer.hand = [\<lparr>rank = Ace, suit = Spades\<rparr>, \<lparr>rank = Ten, suit = Hearts\<rparr>],
      GamePlayer.bid = 3, tricks = 0, GamePlayer.score = 0, GamePlayer.bags = 0\<rparr>"

text \<open>The number of cards held in the hands of a list of players.\<close>

definition handTotal :: "'n Player list \<Rightarrow> nat" where
  "handTotal ps = sum_list (map (\<lambda>p. length (hand p)) ps)"

text \<open>
  The score of the partnership \<open>teamIndex\<close> of \<^verbatim>\<open>Game.js\<close> (\<^verbatim>\<open>scores.team1\<close> for 0,
  \<^verbatim>\<open>scores.team2\<close> otherwise) and the bags its two players carry.
\<close>

definition teamPoints :: "nat \<Rightarrow> Game \<Rightarrow> int" where
  "teamPoints teamIndex g = (if teamIndex = 0 then team1 g else team2 g)"

definition pairBags :: "nat \<Rightarrow> Game \<Rightarrow> int" where
  "pairBags teamIndex g =
     GamePlayer.bags (Game.players g ! teamIndex)
     + GamePlayer.bags (Game.players g ! (teamIndex + 2))"

text \<open>
  The four players of \<^verbatim>\<open>GameManager.js\<close> as \<^verbatim>\<open>endRound\<close> finds them after the bids
  Nil, 3, 4 and 3: built by \<^verbatim>\<open>addPlayer\<close>, reset by \<^verbatim>\<open>dealCards\<close>, their bids set by
  \<^verbatim>\<open>processBid\<close>; no trick is recorded on anyone and \<^verbatim>\<open>tricksWon\<close> is undefined. And
  the end of a round of \<^verbatim>\<open>Game.js\<close> with the same bids, where the Nil bidder took two
  tricks (\<open>nilGame\<close>) or none (\<open>madeNilGame\<close>) and the partner made four.
\<close>

definition nilTable :: "int Player list" where
  "nilTable =
     [(seatPlayer ''ann'' 2 [])\<lparr>bid := Some 0, isNil := True\<rparr>,
      (seatPlayer ''bob'' 1 [])\<lparr>bid := Some 3\<rparr>,
      (seatPlayer ''cat'' 2 [])\<lparr>bid := Some 4\<rparr>,
      (seatPlayer ''dan'' 1 [])\<lparr>bid := Some 3\<rparr>]"

definition nilGame :: Game where
  "nilGame = emptyGame\<lparr>Game.players :=
     [gameAnn\<lparr>GamePlayer.hand := [], GamePlayer.bid := 14, tricks := 2\<rparr>,
      gameAnn\<lparr>GamePlayer.hand := [], GamePlayer.bid := 3, tricks := 3\<rparr>,
      gameAnn\<lparr>GamePlayer.hand := [], GamePlayer.bid := 4, tricks := 4\<rparr>,
      gameAnn\<lparr>GamePlayer.hand := [], GamePlayer.bid := 3, tricks := 4\<rparr>]\<rparr>"

definition madeNilGame :: Game where
  "madeNilGame = emptyGame\<lparr>Game.players :=
     [gameAnn\<lparr>GamePlayer.hand := [], GamePlayer.bid := 14, tricks := 0\<rparr>,
      gameAnn\<lparr>GamePlayer.hand := [], GamePlayer.bid := 3, tricks := 4\<rparr>,
      gameAnn\<lparr>GamePlayer.hand := [], GamePlayer.bid := 4, tricks := 4\<rparr>,
      gameAnn\<lparr>GamePlayer.hand := [], GamePlayer.bid := 3, tricks := 5\<rparr>]\<rparr>"

text \<open>
  The state in which \<^verbatim>\<open>endRound\<close> announces the scores: trick play closed, contracts
  scored and bag penalties taken.
\<close>

definition afterScoring :: "int GameManager \<Rightarrow> int GameManager" where
  "afterScoring s =
     s\<lparr>isTrickActive := False,
       players := calculateAndApplyBags (scoreContracts (players s))\<rparr>"

text \<open>
  The end of a round of \<^verbatim>\<open>Game.js\<close> with no partnership near the maximum of 500: the
  first one stands at \<open>-150\<close> and misses a bid of eight, the second stands at 100 and
  makes a bid of four with six overtricks.
\<close>

definition lowGame :: Game where
  "lowGame = emptyGame\<lparr>Game.players :=
     [gameAnn\<lparr>GamePlayer.hand := [], GamePlayer.bid := 5, tricks := 2\<rparr>,
      gameAnn\<lparr>GamePlayer.hand := [], GamePlayer.bid := 2, tricks := 5\<rparr>,
      gameAnn\<lparr>GamePlayer.hand := [], GamePlayer.bid := 3, tricks := 1\<rparr>,
      gameAnn\<lparr>GamePlayer.hand := [], GamePlayer.bid := 2, tricks := 5\<rparr>],
     team1 := - 150, team2 := 100\<rparr>"

text \<open>
  The end of a round of \<^verbatim>\<open>GameManager.js\<close> with the players of \<open>nilTable\<close>, every one
  of them standing at 600.
\<close>

definition wonTable :: "int GameManager" where
  "wonTable = playTable\<lparr>players := map (\<lambda>p. p\<lparr>score := 600\<rparr>) nilTable\<rparr>"

text \<open>
  The end of a round in which a partnership carrying nine bags bids two and takes all
  thirteen tricks, in \<^verbatim>\<open>Game.js\<close> (\<open>bagGame\<close>, the bags held five and four) and in
  \<^verbatim>\<open>GameManager.js\<close> (\<open>bagTable\<close>, the bags held by the first player of the team, and
  the tricks given as numbers in \<^verbatim>\<open>tricksWon\<close>).
\<close>

definition bagGame :: Game where
  "bagGame = emptyGame\<lparr>Game.players :=
     [gameAnn\<lparr>GamePlayer.hand := [], GamePlayer.bid := 1, tricks := 7, GamePlayer.bags := 5\<rparr>,
      gameAnn\<lparr>GamePlayer.hand := [], GamePlayer.bid := 3, tricks := 0\<rparr>,
      gameAnn\<lparr>GamePlayer.hand := [], GamePlayer.bid := 1, tricks := 6, GamePlayer.bags := 4\<rparr>,
      gameAnn\<lparr>GamePlayer.hand := [], GamePlayer.bid := 3, tricks := 0\<rparr>]\<rparr>"

definition bagTable :: "int Player list" where
  "bagTable =
     [(seatPlayer ''ann'' 2 [])\<lparr>bid := Some 1, tricksWon := Some 7, bags := 9\<rparr>,
      (seatPlayer ''bob'' 1 [])\<lparr>bid := Some 3, tricksWon := Some 0\<rparr>,
      (seatPlayer ''cat'' 2 [])\<lparr>bid := Some 1, tricksWon := Some 6\<rparr>,
      (seatPlayer ''dan'' 1 [])\<lparr>bid := Some 3, tricksWon := Some 0\<rparr>]"

text \<open>
  What players send to the engine, a bid or a card, each with the sender's id. \<open>run\<close> is
  the engine's state after a sequence of them, a refusal leaving the state the refusing
  call left and an exception ending the run. \<open>play\<close> goes on after an exception, from
  the state it left.
\<close>

datatype event = BidEvent jsstring jsstring | CardEvent jsstring jsstring

fun handle :: "event \<Rightarrow> int GameManager \<Rightarrow> int GameManager result" where
  "handle (BidEvent pid raw) s = processBid pid raw s"
| "handle (CardEvent pid raw) s = processCardPlay pid raw s"

fun run :: "event list \<Rightarrow> int GameManager \<Rightarrow> int GameManager option" where
  "run [] s = Some s"
| "run (e # es) s =
     (case handle e s of
        Done s' \<Rightarrow> run es s'
      | Refused _ s' \<Rightarrow> run es s'
      | Threw _ \<Rightarrow> None)"

definition play :: "event list \<Rightarrow> int GameManager \<Rightarrow> int GameManager" where
  "play evs s = foldl (\<lambda>t e. stateOf (handle e t)) s evs"

text \<open>The four bids of a round at \<open>smallTable\<close>, in seat order from the first seat.\<close>

definition fourBids :: "event list" where
  "fourBids =
     [BidEvent (lit ''ann'') (lit ''3''), BidEvent (lit ''bob'') (lit ''3''),
      BidEvent (lit ''cat'') (lit ''4''), BidEvent (lit ''dan'') (lit ''3'')]"

text \<open>
  The end of a round at which spades have been broken: the round of \<open>nilTable\<close>, no
  score near the target.
\<close>

definition brokenTable :: "int GameManager" where
  "brokenTable = playTable\<lparr>players := nilTable, spadesBroken := True\<rparr>"

text \<open>
  The cards the specification counts: those in the hands, those of the trick in
  progress, and those left in the deck.
\<close>

definition cardCount :: "'n GameManager \<Rightarrow> nat" where
  "cardCount s = handTotal (players s) + length (currentTrick s) + length (deck s)"

text \<open>
  What holds of the cards in every state of a game: there are 52 of them, and while
  bidding is open no trick is being played and none lies on the table.
\<close>

definition cardsAccounted :: "'n GameManager \<Rightarrow> bool" where
  "cardsAccounted s =
     (cardCount s = 52 \<and> (isBiddingActive s \<longrightarrow> \<not> isTrickActive s \<and> currentTrick s = []))"

text \<open>
  A game as it begins: the engine is constructed and the players with the given ids
  join in turn (a fifth is refused).
\<close>

definition lobby :: "int \<Rightarrow> jsstring list \<Rightarrow> 'n GameManager" where
  "lobby target ids = foldl (\<lambda>s pid. stateOf (addPlayer pid s)) (constructor target) ids"

text \<open>
  A deal in which every player holds one suit, sorted as \<^verbatim>\<open>dealCards\<close> leaves a hand,
  and the cards of a first trick played from it: the fourth seat, where the turn stays
  after the bids, leads the two of spades and the others discard their twos. The cards
  are named as \<^verbatim>\<open>peekCardInHand\<close> reads them, by \<^verbatim>\<open>Card.code\<close>.
\<close>

definition suitHand :: "suit \<Rightarrow> Card list" where
  "suitHand x =
     map (\<lambda>r. \<lparr>rank = r, suit = x\<rparr>)
       [Ace, King, Queen, Jack, Ten, Nine, Eight, Seven, Six, Five, Four, Three, Two]"

definition suitTable :: "'n GameManager" where
  "suitTable = smallTable\<lparr>players :=
     [seatPlayer ''ann'' 2 (suitHand Clubs), seatPlayer ''bob'' 1 (suitHand Diamonds),
      seatPlayer ''cat'' 2 (suitHand Hearts), seatPlayer ''dan'' 1 (suitHand Spades)]\<rparr>"

definition firstTrick :: "event list" where
  "firstTrick =
     [CardEvent (lit ''dan'') (code \<lparr>rank = Two, suit = Spades\<rparr>),
      CardEvent (lit ''ann'') (code \<lparr>rank = Two, suit = Clubs\<rparr>),
      CardEvent (lit ''bob'') (code \<lparr>rank = Two, suit = Diamonds\<rparr>),
      CardEvent (lit ''cat'') (code \<lparr>rank = Two, suit = Hearts\<rparr>)]"

section \<open>Properties\<close>

subsection \<open>Cards\<close>

text \<open>The definitions that evaluate string operations on literals.\<close>

lemmas str_evals = lit_def toUpperCase_def trim_def upperUnits_def isWhiteSpace_def code_def
  rankText_def

lemma cardValue_ge_2: "2 \<le> cardValue c"
  by (cases "rank c") (simp_all add: cardValue_def)

lemma rankValue_inj: "rankValue r = rankValue r' \<Longrightarrow> r = r'"
  by (cases r; cases r') simp_all

subsection \<open>The winner of a trick\<close>

lemma trickKey_inj:
  assumes "trickKey l c = trickKey l c'" and "trickKey l c \<noteq> (False, - 1)"
  shows "c = c'"
proof -
  have v: "cardValue c = cardValue c'" and s: "suit c = suit c'"
    using assms cardValue_ge_2[of c] cardValue_ge_2[of c']
    by (auto simp: trickKey_def split: if_splits)
  from v have "rank c = rank c'" by (simp add: cardValue_def rankValue_inj)
  with s show ?thesis by simp
qed

lemma trickStep_choice: "trickStep led w c = w \<or> trickStep led w c = c"
  by (simp add: trickStep_def Let_def)

lemma trickStep_key:
  "trickKey l (TrickEntry.card (trickStep (Some l) w c))
     = max (trickKey l (TrickEntry.card w)) (trickKey l (TrickEntry.card c))"
  using cardValue_ge_2[of "TrickEntry.card w"] cardValue_ge_2[of "TrickEntry.card c"]
  by (auto simp: trickStep_def trickKey_def Let_def max_def)

text \<open>
  A left fold whose step returns one of its two arguments, the one with the larger key,
  returns an element of the list with the largest key. \<open>P\<close> is what the fold keeps true
  of its accumulator.
\<close>

lemma foldl_keeps_max:
  fixes k :: "'a \<Rightarrow> bool \<times> int"
  assumes "P e"
    and "\<And>w c. P w \<Longrightarrow> (f w c = w \<or> f w c = c) \<and> P (f w c) \<and> k (f w c) = max (k w) (k c)"
  shows "foldl f e xs \<in> insert e (set xs) \<and> P (foldl f e xs)
         \<and> (\<forall>x \<in> insert e (set xs). k x \<le> k (foldl f e xs))"
  using assms(1)
proof (induction xs arbitrary: e)
  case Nil
  then show ?case by simp
next
  case (Cons x xs)
  have st: "(f e x = e \<or> f e x = x) \<and> P (f e x) \<and> k (f e x) = max (k e) (k x)"
    using assms(2)[OF Cons.prems] .
  then have P': "P (f e x)" by simp
  note IH = Cons.IH[OF P']
  have mem: "foldl f (f e x) xs \<in> insert e (set (x # xs))"
    using IH st by auto
  have le: "k e \<le> k (foldl f (f e x) xs)" "k x \<le> k (foldl f (f e x) xs)"
  proof -
    have "k (f e x) \<le> k (foldl f (f e x) xs)" using IH by simp
    moreover have "k e \<le> k (f e x)" "k x \<le> k (f e x)" using st by simp_all
    ultimately show "k e \<le> k (foldl f (f e x) xs)" "k x \<le> k (foldl f (f e x) xs)"
      by (meson order_trans)+
  qed
  show ?case using mem IH le by auto
qed

text \<open>
  Among plays of distinct cards, one of which is of the led suit, a play with the
  largest key is strictly above every other play, and is a spade or of the led suit.
\<close>

lemma max_key_unique:
  fixes card_of :: "'a \<Rightarrow> Card"
  assumes d: "distinct (map card_of plays)"
    and f: "first \<in> set plays" and l: "suit (card_of first) = l"
    and w: "w \<in> set plays"
    and mx: "\<forall>x \<in> set plays. trickKey l (card_of x) \<le> trickKey l (card_of w)"
  shows "(\<forall>e \<in> set plays. e \<noteq> w \<longrightarrow> trickKey l (card_of e) < trickKey l (card_of w))
         \<and> (suit (card_of w) = Spades \<or> suit (card_of w) = l)"
proof -
  have lo: "(False, - 1) < trickKey l (card_of first)"
    using l cardValue_ge_2[of "card_of first"] by (auto simp: trickKey_def)
  have "trickKey l (card_of first) \<le> trickKey l (card_of w)" using mx f by blast
  with lo have hi: "(False, - 1) < trickKey l (card_of w)" by (rule less_le_trans)
  then have ne: "trickKey l (card_of w) \<noteq> (False, - 1)" by simp
  have inj: "inj_on card_of (set plays)" using d by (simp add: distinct_map)
  have strict: "trickKey l (card_of e) < trickKey l (card_of w)"
    if e: "e \<in> set plays" and new: "e \<noteq> w" for e
  proof -
    have le: "trickKey l (card_of e) \<le> trickKey l (card_of w)" using mx e by blast
    have "trickKey l (card_of e) \<noteq> trickKey l (card_of w)"
    proof
      assume eq: "trickKey l (card_of e) = trickKey l (card_of w)"
      have "card_of w = card_of e" by (rule trickKey_inj[OF eq[symmetric] ne])
      then have "w = e" using inj e w by (auto dest: inj_onD)
      with new show False by simp
    qed
    with le show ?thesis by simp
  qed
  have "suit (card_of w) = Spades \<or> suit (card_of w) = l"
    using ne by (auto simp: trickKey_def split: if_splits)
  with strict show ?thesis by blast
qed

lemma getWinnerOfTrick_max:
  assumes ne: "plays \<noteq> []" and d: "distinct (map TrickEntry.card plays)"
    and l: "l = suit (TrickEntry.card (hd plays))"
  shows "\<exists>w. getWinnerOfTrick (Some l) plays = Some w \<and> w \<in> set plays
           \<and> (\<forall>e \<in> set plays. e \<noteq> w \<longrightarrow>
                 trickKey l (TrickEntry.card e) < trickKey l (TrickEntry.card w))
           \<and> (suit (TrickEntry.card w) = Spades \<or> suit (TrickEntry.card w) = l)"
proof -
  obtain e rest where pl: "plays = e # rest" using ne by (cases plays) auto
  define w where "w = foldl (trickStep (Some l)) e plays"
  have gw: "getWinnerOfTrick (Some l) plays = Some w" by (simp add: getWinnerOfTrick_def pl w_def)
  have fm: "w \<in> insert e (set plays) \<and> True
            \<and> (\<forall>x \<in> insert e (set plays).
                  trickKey l (TrickEntry.card x) \<le> trickKey l (TrickEntry.card w))"
    unfolding w_def
    by (rule foldl_keeps_max[where P = "\<lambda>_. True" and k = "\<lambda>x. trickKey l (TrickEntry.card x)"])
       (use trickStep_choice trickStep_key in auto)
  have win: "w \<in> set plays" using fm pl by auto
  have mx: "\<forall>x \<in> set plays. trickKey l (TrickEntry.card x) \<le> trickKey l (TrickEntry.card w)"
    using fm by blast
  have "e \<in> set plays" "suit (TrickEntry.card e) = l" using pl l by simp_all
  from max_key_unique[OF d this win mx] gw win show ?thesis by blast
qed

lemma winningStep_props:
  assumes "suit (Play.card w) = Spades \<or> suit (Play.card w) = l"
  shows "(winningStep l w c = w \<or> winningStep l w c = c)
         \<and> (suit (Play.card (winningStep l w c)) = Spades
              \<or> suit (Play.card (winningStep l w c)) = l)
         \<and> trickKey l (Play.card (winningStep l w c))
             = max (trickKey l (Play.card w)) (trickKey l (Play.card c))"
  using assms cardValue_ge_2[of "Play.card w"] cardValue_ge_2[of "Play.card c"]
  by (auto simp: winningStep_def trickKey_def Let_def max_def)

lemma determineTrickWinner_max:
  assumes len: "length (trick g) = 4" and d: "distinct (map Play.card (trick g))"
    and l: "l = suit (Play.card (hd (trick g)))"
  shows "\<exists>w. fst (determineTrickWinner g) = Some w \<and> w \<in> set (trick g)
           \<and> (\<forall>e \<in> set (trick g). e \<noteq> w \<longrightarrow>
                 trickKey l (Play.card e) < trickKey l (Play.card w))
           \<and> (suit (Play.card w) = Spades \<or> suit (Play.card w) = l)"
proof -
  obtain e rest where pl: "trick g = e # rest" using len by (cases "trick g") auto
  define w where "w = foldl (winningStep l) e rest"
  have gw: "fst (determineTrickWinner g) = Some w"
    using len by (simp add: determineTrickWinner_def pl w_def l Let_def)
  have fm: "w \<in> insert e (set rest)
            \<and> (suit (Play.card w) = Spades \<or> suit (Play.card w) = l)
            \<and> (\<forall>x \<in> insert e (set rest). trickKey l (Play.card x) \<le> trickKey l (Play.card w))"
    unfolding w_def
    by (rule foldl_keeps_max[where
          P = "\<lambda>w. suit (Play.card w) = Spades \<or> suit (Play.card w) = l"
          and k = "\<lambda>x. trickKey l (Play.card x)"])
       (use winningStep_props l pl in auto)
  have win: "w \<in> set (trick g)" using fm pl by auto
  have mx: "\<forall>x \<in> set (trick g). trickKey l (Play.card x) \<le> trickKey l (Play.card w)"
    using fm pl by auto
  have "e \<in> set (trick g)" "suit (Play.card e) = l" using pl l by simp_all
  from max_key_unique[OF d this win mx] gw win show ?thesis by blast
qed

text \<open>
  Claim C4. For a complete trick of four plays of distinct cards whose led suit is the
  suit of the first play, both engines (\<^verbatim>\<open>GameManager.getWinnerOfTrick\<close> and
  \<^verbatim>\<open>Game.determineTrickWinner\<close>) return a play of the trick whose key is strictly
  larger than the key of every other play: a spade beats every other suit, the higher
  spade beats the lower, the higher card of the led suit beats the lower, and the
  winner is a spade or of the led suit.
\<close>

theorem trick_winner_has_maximum_key:
  assumes "length plays = 4" and "distinct (map TrickEntry.card plays)"
    and "length (trick g) = 4" and "distinct (map Play.card (trick g))"
  shows "(\<exists>w. getWinnerOfTrick (Some (suit (TrickEntry.card (hd plays)))) plays = Some w
            \<and> w \<in> set plays
            \<and> (\<forall>e \<in> set plays. e \<noteq> w \<longrightarrow>
                  trickKey (suit (TrickEntry.card (hd plays))) (TrickEntry.card e)
                    < trickKey (suit (TrickEntry.card (hd plays))) (TrickEntry.card w))
            \<and> (suit (TrickEntry.card w) = Spades
                 \<or> suit (TrickEntry.card w) = suit (TrickEntry.card (hd plays))))
       \<and> (\<exists>w. fst (determineTrickWinner g) = Some w
            \<and> w \<in> set (trick g)
            \<and> (\<forall>e \<in> set (trick g). e \<noteq> w \<longrightarrow>
                  trickKey (suit (Play.card (hd (trick g)))) (Play.card e)
                    < trickKey (suit (Play.card (hd (trick g)))) (Play.card w))
            \<and> (suit (Play.card w) = Spades
                 \<or> suit (Play.card w) = suit (Play.card (hd (trick g)))))"
proof -
  have "plays \<noteq> []" using assms(1) by auto
  from getWinnerOfTrick_max[OF this assms(2) refl] determineTrickWinner_max[OF assms(3,4) refl]
  show ?thesis by blast
qed

theorem trick_winner_has_maximum_key_witness:
  "length exampleTrick = 4 \<and> distinct (map TrickEntry.card exampleTrick)
   \<and> length (trick (emptyGame\<lparr>trick := examplePlays\<rparr>)) = 4
   \<and> distinct (map Play.card (trick (emptyGame\<lparr>trick := examplePlays\<rparr>)))
   \<and> getWinnerOfTrick (Some Clubs) exampleTrick
       = Some \<lparr>playerId = lit ''P3'', card = \<lparr>rank = Ace, suit = Spades\<rparr>\<rparr>
   \<and> fst (determineTrickWinner (emptyGame\<lparr>trick := examplePlays\<rparr>))
       = Some \<lparr>player = 2, Play.card = \<lparr>rank = Ace, suit = Spades\<rparr>\<rparr>
   \<and> (\<exists>w. getWinnerOfTrick (Some Clubs) exampleTrick = Some w
         \<and> (\<forall>e \<in> set exampleTrick. e \<noteq> w \<longrightarrow>
               trickKey Clubs (TrickEntry.card e) < trickKey Clubs (TrickEntry.card w)))"
proof -
  have h1: "length exampleTrick = 4" by (simp add: exampleTrick_def)
  have h2: "distinct (map TrickEntry.card exampleTrick)" by (simp add: exampleTrick_def)
  have h3: "length (trick (emptyGame\<lparr>trick := examplePlays\<rparr>)) = 4"
    by (simp add: examplePlays_def)
  have h4: "distinct (map Play.card (trick (emptyGame\<lparr>trick := examplePlays\<rparr>)))"
    by (simp add: examplePlays_def)
  have hd1: "suit (TrickEntry.card (hd exampleTrick)) = Clubs" by (simp add: exampleTrick_def)
  have e1: "getWinnerOfTrick (Some Clubs) exampleTrick
       = Some \<lparr>playerId = lit ''P3'', card = \<lparr>rank = Ace, suit = Spades\<rparr>\<rparr>"
    by (simp add: getWinnerOfTrick_def exampleTrick_def trickStep_def cardValue_def Let_def)
  have e2: "fst (determineTrickWinner (emptyGame\<lparr>trick := examplePlays\<rparr>))
       = Some \<lparr>player = 2, Play.card = \<lparr>rank = Ace, suit = Spades\<rparr>\<rparr>"
    by (simp add: determineTrickWinner_def examplePlays_def winningStep_def cardValue_def
        Let_def)
  from trick_winner_has_maximum_key[OF h1 h2 h3 h4] hd1
  have "\<exists>w. getWinnerOfTrick (Some Clubs) exampleTrick = Some w
         \<and> (\<forall>e \<in> set exampleTrick. e \<noteq> w \<longrightarrow>
               trickKey Clubs (TrickEntry.card e) < trickKey Clubs (TrickEntry.card w))"
    by auto
  with h1 h2 h3 h4 e1 e2 show ?thesis by blast
qed

subsection \<open>Button bids\<close>

lemma sortHand_fields [simp]:
  "bid (sortHand p) = bid p" "isNil (sortHand p) = isNil p" "discordId (sortHand p) = discordId p"
  "tricksWon (sortHand p) = tricksWon p" "score (sortHand p) = score p" "bags (sortHand p) = bags p"
  "team (sortHand p) = team p" "length (hand (sortHand p)) = length (hand p)"
  "tricksTaken (sortHand p) = tricksTaken p"
  by (simp_all add: sortHand_def)

text \<open>With a player at the turn, placing a bid ends without an exception.\<close>

lemma placeBid_Done:
  assumes "currentPlayerIndex s < length (players s)"
  shows "placeBid n s = Done (recordBid n s)"
proof -
  have "Suc (currentPlayerIndex s) mod length (players s) < length (players s)"
    using assms by (intro mod_less_divisor) auto
  then have "\<exists>t. placeBid n s = Done t"
    using assms
    by (simp add: placeBid_def Let_def advanceTurn_def endBidding_def startTricks_def
        sendPlayCardPrompt_def)
  then show ?thesis by (auto simp: recordBid_def)
qed

lemma recordBid_records:
  assumes "currentPlayerIndex s < length (players s)"
  shows "bid (players (recordBid n s) ! currentPlayerIndex s) = Some n
         \<and> isNil (players (recordBid n s) ! currentPlayerIndex s) = (n = 0)"
  using assms
  by (auto simp: recordBid_def placeBid_def Let_def advanceTurn_def endBidding_def
      startTricks_def sendPlayCardPrompt_def getHandDisplay_def setBid_def nth_list_update)

text \<open>
  Claim C10. While bidding is active and it is the submitting player's turn,
  \<^verbatim>\<open>tryPlaceBid\<close> accepts every finite JavaScript number from 0 to 13, whole or not,
  and stores it unchanged as the bid of the player at the turn, \<open>isNil\<close> being set
  exactly for 0; and whenever it refuses an amount as invalid, the state is unchanged
  and the amount is not a number, or is a number below 0 or above 13.
\<close>

theorem tryPlaceBid_accepts_numbers_in_range:
  assumes "isBiddingActive s" and "state s = ''BIDDING''"
    and "currentPlayerIndex s < length (players s)"
    and "discordId (players s ! currentPlayerIndex s) = pid"
  shows "(0 \<le> q \<and> q \<le> 13 \<longrightarrow>
           tryPlaceBid pid (JNumber (Finite q)) s = Done (recordBid (Finite q) s)
           \<and> bid (players (recordBid (Finite q) s) ! currentPlayerIndex s) = Some (Finite q)
           \<and> isNil (players (recordBid (Finite q) s) ! currentPlayerIndex s) = (q = 0))
       \<and> (\<forall>s'. tryPlaceBid pid v s = Refused InvalidBid s' \<longrightarrow>
             s' = s \<and> (\<not> typeof_is_number v
                        \<or> (\<exists>n. v = JNumber n \<and> (js_less n (Finite 0) \<or> js_greater n (Finite 13)))))"
proof -
  have a: "tryPlaceBid pid (JNumber (Finite q)) s = Done (recordBid (Finite q) s)"
    if "0 \<le> q" "q \<le> 13"
    using assms that by (simp add: tryPlaceBid_def js_greater_def placeBid_Done)
  have b: "s' = s \<and> (\<not> typeof_is_number v
                        \<or> (\<exists>n. v = JNumber n \<and> (js_less n (Finite 0) \<or> js_greater n (Finite 13))))"
    if "tryPlaceBid pid v s = Refused InvalidBid s'" for s'
    using assms that
    by (cases v) (auto simp: tryPlaceBid_def placeBid_Done split: if_splits)
  have c: "bid (players (recordBid (Finite q) s) ! currentPlayerIndex s) = Some (Finite q)
         \<and> isNil (players (recordBid (Finite q) s) ! currentPlayerIndex s) = (Finite q = 0)"
    using recordBid_records[OF assms(3)] by blast
  have z: "(Finite q = 0) = (q = 0)" by (simp add: zero_jsnum_def)
  from a b c z show ?thesis by auto
qed

theorem tryPlaceBid_accepts_numbers_in_range_witness:
  "isBiddingActive (smallTable :: jsnum GameManager)
   \<and> state (smallTable :: jsnum GameManager) = ''BIDDING''
   \<and> currentPlayerIndex (smallTable :: jsnum GameManager) < length (players (smallTable :: jsnum GameManager))
   \<and> discordId (players (smallTable :: jsnum GameManager) ! currentPlayerIndex (smallTable :: jsnum GameManager)) = lit ''ann''
   \<and> tryPlaceBid (lit ''ann'') (JNumber (Finite (5 / 2))) smallTable = Done (recordBid (Finite (5 / 2)) smallTable)
   \<and> bid (players (recordBid (Finite (5 / 2)) (smallTable :: jsnum GameManager)) ! 0) = Some (Finite (5 / 2))
   \<and> isNil (players (recordBid (Finite (5 / 2)) (smallTable :: jsnum GameManager)) ! 0) = False"
proof -
  have h: "isBiddingActive (smallTable :: jsnum GameManager)"
    "state (smallTable :: jsnum GameManager) = ''BIDDING''"
    "currentPlayerIndex (smallTable :: jsnum GameManager) < length (players (smallTable :: jsnum GameManager))"
    "discordId (players (smallTable :: jsnum GameManager) ! currentPlayerIndex (smallTable :: jsnum GameManager)) = lit ''ann''"
    by (simp_all add: smallTable_def seatPlayer_def)
  have i: "currentPlayerIndex (smallTable :: jsnum GameManager) = 0" by (simp add: smallTable_def)
  from tryPlaceBid_accepts_numbers_in_range[OF h, of "5 / 2" JUndefined] h i
  show ?thesis by simp
qed

subsection \<open>Looking a card up and leading it\<close>

lemma code_upper [simp]: "toUpperCase (code c) = code c"
  by (cases "rank c"; cases "suit c")
     (simp_all add: code_def rankText_def lit_def toUpperCase_def upperUnits_def)

lemma findIndex_None_iff: "findIndex P xs = None \<longleftrightarrow> \<not> list_ex P xs"
  by (induction xs) auto

lemma findIndex_Some:
  "findIndex P xs = Some i \<Longrightarrow> i < length xs \<and> P (xs ! i)"
  by (induction xs arbitrary: i) (auto split: if_splits)

lemma peekCardInHand_Some:
  "peekCardInHand p raw = Some c \<Longrightarrow> c \<in> set (hand p) \<and> code c = toUpperCase (trim raw)"
  by (auto simp: peekCardInHand_def find_Some_iff)

lemma not_all_spades: "(\<not> list_all (\<lambda>c. suit c = Spades) h) = list_ex (\<lambda>c. suit c \<noteq> Spades) h"
  by (auto simp: list_all_iff list_ex_iff)

lemma symbol_inj: "symbol a = symbol b \<Longrightarrow> a = b"
  by (cases a; cases b) simp_all

lemma rankText_inj: "rankText c = rankText c' \<Longrightarrow> rank c = rank c'"
  by (cases "rank c"; cases "rank c'") (simp_all add: rankText_def lit_def)

lemma code_inj: "code c = code c' \<Longrightarrow> c = c'"
proof -
  assume eq: "code c = code c'"
  have len: "length (symbol (suit c)) = length (symbol (suit c'))"
    by (cases "suit c"; cases "suit c'") simp_all
  from eq len have "rankText c = rankText c'" "symbol (suit c) = symbol (suit c')"
    by (simp_all add: code_def)
  then have "rank c = rank c'" "suit c = suit c'"
    by (blast dest: rankText_inj symbol_inj)+
  then show "c = c'" by simp
qed

lemma playCard_Some:
  assumes "playCard cd p = (Some c, p')"
  shows "length (hand p') + 1 = length (hand p)" and "discordId p' = discordId p"
    and "tricksWon p' = tricksWon p" and "c \<in> set (hand p)"
proof -
  from assms obtain i where i: "findIndex (\<lambda>x. code x = toUpperCase cd) (hand p) = Some i"
    and c: "c = hand p ! i" and p': "p' = p\<lparr>hand := take i (hand p) @ drop (Suc i) (hand p)\<rparr>"
    by (auto simp: playCard_def split: option.splits)
  from findIndex_Some[OF i] have il: "i < length (hand p)" by simp
  show "length (hand p') + 1 = length (hand p)" using il by (simp add: p')
  show "discordId p' = discordId p" "tricksWon p' = tricksWon p" by (simp_all add: p')
  show "c \<in> set (hand p)" using il c by simp
qed

lemma playCard_plays_peeked:
  assumes "peekCardInHand p raw = Some c"
  shows "\<exists>p'. playCard (toUpperCase (trim raw)) p = (Some c, p')
           \<and> length (hand p') + 1 = length (hand p) \<and> discordId p' = discordId p"
proof -
  let ?P = "\<lambda>x. code x = toUpperCase (toUpperCase (trim raw))"
  from peekCardInHand_Some[OF assms] have cc: "code c = toUpperCase (trim raw)" and "c \<in> set (hand p)"
    by simp_all
  have up: "toUpperCase (toUpperCase (trim raw)) = toUpperCase (trim raw)"
    using code_upper[of c] unfolding cc .
  have "list_ex ?P (hand p)" using cc \<open>c \<in> set (hand p)\<close> up by (auto simp: list_ex_iff)
  then obtain i where i: "findIndex ?P (hand p) = Some i"
    using findIndex_None_iff[of ?P "hand p"] by (cases "findIndex ?P (hand p)") auto
  from findIndex_Some[OF i] have il: "i < length (hand p)" and "code (hand p ! i) = code c"
    using cc up by simp_all
  then have "hand p ! i = c" by (simp add: code_inj)
  with i il show ?thesis by (simp add: playCard_def)
qed

text \<open>
  The outcome of leading a card that is in the hand: the refusal of a spade, or the card
  alone in the trick and an exception, from \<^verbatim>\<open>endTrick\<close> where one card completes the
  trick and from \<^verbatim>\<open>sendPlayCardPrompt\<close> otherwise.
\<close>

lemma lead_outcome:
  assumes act: "isTrickActive s" and me: "getPlayerById s pid = Some ix"
    and turn: "currentPlayerIndex s < length (players s)"
      "discordId (players s ! currentPlayerIndex s) = pid"
    and lead: "currentTrick s = []"
    and peek: "peekCardInHand (players s ! ix) raw = Some c"
  shows "(suit c = Spades \<and> \<not> spadesBroken s
            \<and> list_ex (\<lambda>c'. suit c' \<noteq> Spades) (hand (players s ! ix))
          \<longrightarrow> processCardPlay pid raw s = Refused SpadesNotBroken s)
       \<and> (\<not> (suit c = Spades \<and> \<not> spadesBroken s
            \<and> list_ex (\<lambda>c'. suit c' \<noteq> Spades) (hand (players s ! ix)))
          \<longrightarrow> (\<exists>s'. processCardPlay pid raw s = Threw s'
                 \<and> currentTrick s' = [\<lparr>playerId = pid, card = c\<rparr>]
                 \<and> trickSuit s' = Some (suit c)))"
proof -
  obtain p' where pc: "playCard (toUpperCase (trim raw)) (players s ! ix) = (Some c, p')"
    using playCard_plays_peeked[OF peek] by blast
  show ?thesis
    using act me turn lead peek pc
    by (auto simp: processCardPlay_def not_all_spades Let_def evaluateTrick_def endTrick_def
        getWinnerOfTrick_def advanceTurn_def sendPlayCardPrompt_def
        split: option.splits)
qed

lemma suitCode_inj: "suitCode a = suitCode b \<Longrightarrow> a = b"
  by (cases a; cases b) (simp_all add: lit_def)

lemma suitCode_Spades: "(suitCode a = lit ''S'') = (a = Spades)"
  by (cases a) (simp_all add: lit_def)

lemma getCardFromInput_found:
  assumes "fst (parseCardInput input) \<noteq> []" and "snd (parseCardInput input) \<noteq> []"
    and "getCardByCode p (fst (parseCardInput input)) (snd (parseCardInput input)) = Some c"
  shows "getCardFromInput g p input =
           (if trick g = [] \<and> suit c = Spades \<and> \<not> Game.spadesBroken g
               \<and> list_ex (\<lambda>x. suit x \<noteq> Spades) (GamePlayer.hand p)
            then Inl LeadSpadesNotBroken
            else if trick g \<noteq> [] \<and> suit c \<noteq> suit (Play.card (hd (trick g)))
               \<and> list_ex (\<lambda>x. suit x = suit (Play.card (hd (trick g)))) (GamePlayer.hand p)
            then Inl MustFollow
            else Inr c)"
proof -
  from assms(3) have sc: "fst (parseCardInput input) = suitCode (suit c)"
    by (auto simp: getCardByCode_def find_Some_iff)
  have ne: "suitCode (suit c) \<noteq> []" using assms(1) sc by simp
  have found: "getCardByCode p (suitCode (suit c)) (snd (parseCardInput input)) = Some c"
    using assms(3) sc by simp
  have sq: "(suitCode a = suitCode b) = (a = b)" for a b
    using suitCode_inj by auto
  show ?thesis
    unfolding getCardFromInput_def Let_def sc
    using ne assms(2) found by (auto simp: suitCode_Spades sq)
qed

lemma sorted_getHandDisplay:
  assumes "sorted (map handKey (hand (players s ! ix)))"
  shows "getHandDisplay ix s = s"
proof -
  have "sortHand (players s ! ix) = players s ! ix"
    using assms by (simp add: sortHand_def sort_key_id_if_sorted)
  then show ?thesis by (simp add: getHandDisplay_def)
qed

text \<open>
  Claim C9. For the player at the turn leading a trick with a card held in hand: both
  engines reject the lead for unbroken spades exactly when the card is a spade, spades
  are not broken and the hand holds a card that is not a spade, and \<^verbatim>\<open>GameManager\<close>
  leaves the state as it was when it does. So a hand of spades only may lead a spade at
  any time, and the lead of another suit is never rejected by this rule. In
  \<^verbatim>\<open>GameManager\<close> a lead that is not rejected is made, the card lying alone in the trick
  and its suit being the led suit; the call then ends in the exception of
  \<^verbatim>\<open>sendPlayCardPrompt\<close> or \<^verbatim>\<open>endTrick\<close>. In \<^verbatim>\<open>Game.js\<close> it yields the card.
\<close>

theorem spade_lead_refused_iff:
  assumes "isTrickActive s" and "getPlayerById s pid = Some ix"
    and "currentPlayerIndex s < length (players s)"
    and "discordId (players s ! currentPlayerIndex s) = pid"
    and "currentTrick s = []"
    and "peekCardInHand (players s ! ix) raw = Some c"
    and "trick g = []"
    and "fst (parseCardInput input) \<noteq> []" and "snd (parseCardInput input) \<noteq> []"
    and "getCardByCode p (fst (parseCardInput input)) (snd (parseCardInput input)) = Some cg"
  shows "((\<exists>s'. processCardPlay pid raw s = Refused SpadesNotBroken s')
            = (suit c = Spades \<and> \<not> spadesBroken s
                \<and> list_ex (\<lambda>x. suit x \<noteq> Spades) (hand (players s ! ix))))
       \<and> (\<forall>s'. processCardPlay pid raw s = Refused SpadesNotBroken s' \<longrightarrow> s' = s)
       \<and> (\<not> (suit c = Spades \<and> \<not> spadesBroken s
                   \<and> list_ex (\<lambda>x. suit x \<noteq> Spades) (hand (players s ! ix)))
          \<longrightarrow> (\<exists>s'. processCardPlay pid raw s = Threw s'
                 \<and> currentTrick s' = [\<lparr>playerId = pid, card = c\<rparr>]
                 \<and> trickSuit s' = Some (suit c)))
       \<and> ((getCardFromInput g p input = Inl LeadSpadesNotBroken)
            = (suit cg = Spades \<and> \<not> Game.spadesBroken g
                \<and> list_ex (\<lambda>x. suit x \<noteq> Spades) (GamePlayer.hand p)))
       \<and> (\<not> (suit cg = Spades \<and> \<not> Game.spadesBroken g
                \<and> list_ex (\<lambda>x. suit x \<noteq> Spades) (GamePlayer.hand p))
          \<longrightarrow> getCardFromInput g p input = Inr cg)"
proof -
  note lo = lead_outcome[OF assms(1-6)]
  have a: "(\<exists>s'. processCardPlay pid raw s = Refused SpadesNotBroken s')
            = (suit c = Spades \<and> \<not> spadesBroken s
                \<and> list_ex (\<lambda>x. suit x \<noteq> Spades) (hand (players s ! ix)))"
    using lo by auto
  have b: "\<forall>s'. processCardPlay pid raw s = Refused SpadesNotBroken s' \<longrightarrow> s' = s"
    using lo by (cases "suit c = Spades \<and> \<not> spadesBroken s
                \<and> list_ex (\<lambda>x. suit x \<noteq> Spades) (hand (players s ! ix))") auto
  have c: "\<not> (suit c = Spades \<and> \<not> spadesBroken s
                   \<and> list_ex (\<lambda>x. suit x \<noteq> Spades) (hand (players s ! ix)))
          \<longrightarrow> (\<exists>s'. processCardPlay pid raw s = Threw s'
                 \<and> currentTrick s' = [\<lparr>playerId = pid, card = c\<rparr>]
                 \<and> trickSuit s' = Some (suit c))"
    using lo by blast
  note gf = getCardFromInput_found[OF assms(8-10), of g]
  have d: "(getCardFromInput g p input = Inl LeadSpadesNotBroken)
            = (suit cg = Spades \<and> \<not> Game.spadesBroken g
                \<and> list_ex (\<lambda>x. suit x \<noteq> Spades) (GamePlayer.hand p))"
    using gf assms(7) by simp
  have e: "\<not> (suit cg = Spades \<and> \<not> Game.spadesBroken g
                \<and> list_ex (\<lambda>x. suit x \<noteq> Spades) (GamePlayer.hand p))
          \<longrightarrow> getCardFromInput g p input = Inr cg"
    using gf assms(7) by simp
  from a b c d e show ?thesis by blast
qed

theorem spade_lead_refused_iff_witness:
  "isTrickActive playTable \<and> getPlayerById playTable (lit ''ann'') = Some 0
   \<and> currentPlayerIndex playTable < length (players playTable)
   \<and> discordId (players playTable ! currentPlayerIndex playTable) = lit ''ann''
   \<and> currentTrick playTable = []
   \<and> peekCardInHand (players playTable ! 0) (lit ''A'' @ symbol Spades)
       = Some \<lparr>rank = Ace, suit = Spades\<rparr>
   \<and> trick emptyGame = []
   \<and> fst (parseCardInput (lit ''as'')) \<noteq> [] \<and> snd (parseCardInput (lit ''as'')) \<noteq> []
   \<and> getCardByCode gameAnn (fst (parseCardInput (lit ''as''))) (snd (parseCardInput (lit ''as'')))
       = Some \<lparr>rank = Ace, suit = Spades\<rparr>
   \<and> processCardPlay (lit ''ann'') (lit ''A'' @ symbol Spades) playTable
       = Refused SpadesNotBroken playTable
   \<and> getCardFromInput emptyGame gameAnn (lit ''as'') = Inl LeadSpadesNotBroken
   \<and> peekCardInHand (players playTable ! 0) (lit ''10'' @ symbol Hearts)
       = Some \<lparr>rank = Ten, suit = Hearts\<rparr>
   \<and> currentTrick (stateOf (processCardPlay (lit ''ann'') (lit ''10'' @ symbol Hearts) playTable))
       = [\<lparr>playerId = lit ''ann'', card = \<lparr>rank = Ten, suit = Hearts\<rparr>\<rparr>]
   \<and> trickSuit (stateOf (processCardPlay (lit ''ann'') (lit ''10'' @ symbol Hearts) playTable))
       = Some Hearts"
proof -
  have h: "isTrickActive playTable" "getPlayerById playTable (lit ''ann'') = Some 0"
    "currentPlayerIndex playTable < length (players playTable)"
    "discordId (players playTable ! currentPlayerIndex playTable) = lit ''ann''"
    "currentTrick playTable = []"
    by (simp_all add: playTable_def smallTable_def seatPlayer_def getPlayerById_def lit_def)
  have hd: "hand (players playTable ! 0)
      = [\<lparr>rank = Ace, suit = Spades\<rparr>, \<lparr>rank = Ten, suit = Hearts\<rparr>]"
    by (simp add: playTable_def smallTable_def seatPlayer_def)
  have pk: "peekCardInHand (players playTable ! 0) (lit ''A'' @ symbol Spades)
       = Some \<lparr>rank = Ace, suit = Spades\<rparr>"
    by (simp add: peekCardInHand_def hd str_evals)
  have g: "trick emptyGame = []" by (simp add: emptyGame_def)
  have pr: "parseCardInput (lit ''as'') = (lit ''S'', lit ''A'')"
    by (simp add: parseCardInput_def possibleSuits_def possibleRanks_def Let_def str_evals)
  have ne: "fst (parseCardInput (lit ''as'')) \<noteq> []" "snd (parseCardInput (lit ''as'')) \<noteq> []"
    unfolding pr by (simp_all add: lit_def)
  have fd: "getCardByCode gameAnn (fst (parseCardInput (lit ''as''))) (snd (parseCardInput (lit ''as'')))
       = Some \<lparr>rank = Ace, suit = Spades\<rparr>"
    unfolding pr by (simp add: getCardByCode_def gameAnn_def str_evals)
  have c1: "\<not> spadesBroken playTable" by (simp add: playTable_def smallTable_def)
  have c2: "list_ex (\<lambda>x. suit x \<noteq> Spades) (hand (players playTable ! 0))" by (simp add: hd)
  have c3: "\<not> Game.spadesBroken emptyGame" by (simp add: emptyGame_def)
  have c4: "list_ex (\<lambda>x. suit x \<noteq> Spades) (GamePlayer.hand gameAnn)" by (simp add: gameAnn_def)
  note T = spade_lead_refused_iff[OF h pk g ne fd]
  from T c1 c2 have r1: "processCardPlay (lit ''ann'') (lit ''A'' @ symbol Spades) playTable
       = Refused SpadesNotBroken playTable" by auto
  from T c3 c4 have r2: "getCardFromInput emptyGame gameAnn (lit ''as'') = Inl LeadSpadesNotBroken"
    by simp
  have pk2: "peekCardInHand (players playTable ! 0) (lit ''10'' @ symbol Hearts)
       = Some \<lparr>rank = Ten, suit = Hearts\<rparr>"
    by (simp add: peekCardInHand_def hd str_evals)
  note T2 = spade_lead_refused_iff[OF h pk2 g ne fd]
  from T2 obtain s' where
    "processCardPlay (lit ''ann'') (lit ''10'' @ symbol Hearts) playTable = Threw s'"
    "currentTrick s' = [\<lparr>playerId = lit ''ann'', card = \<lparr>rank = Ten, suit = Hearts\<rparr>\<rparr>]"
    "trickSuit s' = Some Hearts"
    by auto
  then have r3:
    "currentTrick (stateOf (processCardPlay (lit ''ann'') (lit ''10'' @ symbol Hearts) playTable))
       = [\<lparr>playerId = lit ''ann'', card = \<lparr>rank = Ten, suit = Hearts\<rparr>\<rparr>]"
    "trickSuit (stateOf (processCardPlay (lit ''ann'') (lit ''10'' @ symbol Hearts) playTable))
       = Some Hearts"
    by simp_all
  from h pk g ne fd r1 r2 pk2 r3 show ?thesis by blast
qed

subsection \<open>Dealing\<close>

lemma length_swap [simp]: "length (swap i j xs) = length xs"
  by (simp add: swap_def)

lemma length_shuffleLoop [simp]: "length (shuffleLoop rnd i cards) = length cards"
  by (induction i arbitrary: cards) simp_all

lemma length_shuffle [simp]: "length (shuffle rnd cards) = length cards"
  by (simp add: shuffle_def)

lemma length_reset [simp]: "length reset = 52"
  by (simp add: reset_def getRankCodes_def getSuitCodes_def)

lemma handTotal_update:
  assumes "j < length ps" and "length (hand q) = length (hand (ps ! j)) + 1"
  shows "handTotal (ps[j := q]) = handTotal ps + 1"
proof -
  have "sum_list ((map (\<lambda>p. length (hand p)) ps)[j := length (hand q)])
        = sum_list (map (\<lambda>p. length (hand p)) ps) + length (hand q)
            - (map (\<lambda>p. length (hand p)) ps) ! j"
    using assms(1) by (simp add: sum_list_update)
  then show ?thesis using assms by (simp add: handTotal_def map_update)
qed

lemma handTotal_same:
  assumes "j < length ps" and "length (hand q) = length (hand (ps ! j))"
  shows "handTotal (ps[j := q]) = handTotal ps"
proof -
  have "sum_list ((map (\<lambda>p. length (hand p)) ps)[j := length (hand q)])
        = sum_list (map (\<lambda>p. length (hand p)) ps) + length (hand q)
            - (map (\<lambda>p. length (hand p)) ps) ! j"
    using assms(1) by (simp add: sum_list_update)
  then show ?thesis using assms by (simp add: handTotal_def map_update)
qed

lemma dealLoop_Some:
  assumes "players s \<noteq> []" and "k \<le> length (deck s)"
  shows "\<exists>d ps. dealLoop k i s = Some (s\<lparr>deck := d, players := ps\<rparr>)
           \<and> length d + k = length (deck s)
           \<and> length ps = length (players s)
           \<and> handTotal ps = handTotal (players s) + k"
  using assms
proof (induction k arbitrary: i s)
  case 0
  have "s = s\<lparr>deck := deck s, players := players s\<rparr>" by simp
  then show ?case by (metis (no_types) dealLoop.simps(1) add.right_neutral)
next
  case (Suc k)
  let ?n = "length (players s)"
  let ?j = "i mod ?n"
  have jn: "?j < ?n" using Suc.prems(1) by simp
  have ne: "deck s \<noteq> []" using Suc.prems(2) by auto
  let ?s1 = "s\<lparr>deck := butlast (deck s),
                players := (players s)[?j := addCard (last (deck s)) (players s ! ?j)]\<rparr>"
  have step: "dealLoop (Suc k) i s = dealLoop k (Suc i) ?s1"
    using Suc.prems(1) ne by (simp add: deal_def)
  have p1: "players ?s1 \<noteq> []" using Suc.prems(1) by simp
  have k1: "k \<le> length (deck ?s1)" using Suc.prems(2) by simp
  from Suc.IH[OF p1 k1, of "Suc i"] obtain d ps where
    r: "dealLoop k (Suc i) ?s1 = Some (?s1\<lparr>deck := d, players := ps\<rparr>)"
    and ld: "length d + k = length (deck ?s1)"
    and lp: "length ps = length (players ?s1)"
    and ht: "handTotal ps = handTotal (players ?s1) + k"
    by blast
  have h1: "handTotal (players ?s1) = handTotal (players s) + 1"
    using jn by (simp add: handTotal_update addCard_def)
  have e: "?s1\<lparr>deck := d, players := ps\<rparr> = s\<lparr>deck := d, players := ps\<rparr>" by simp
  have "length d + Suc k = length (deck s)" using ld ne by simp
  moreover have "length ps = length (players s)" using lp by simp
  moreover have "handTotal ps = handTotal (players s) + Suc k" using ht h1 by simp
  ultimately show ?case using step r e by auto
qed

lemma handTotal_map_sortHand [simp]: "handTotal (map sortHand ps) = handTotal ps"
  by (simp add: handTotal_def sortHand_def comp_def)

lemma handTotal_reset: "handTotal (map resetForNewRound ps) = 0"
  by (simp add: handTotal_def resetForNewRound_def comp_def)

lemma dealCards_Some:
  assumes "players s \<noteq> []" and "length (deck s) = 52"
  shows "\<exists>ps. dealCards s = Some (s\<lparr>deck := [], players := ps\<rparr>)
           \<and> length ps = length (players s)
           \<and> handTotal ps = 52"
proof -
  let ?s0 = "s\<lparr>players := map resetForNewRound (players s)\<rparr>"
  have a: "players ?s0 \<noteq> []" "52 \<le> length (deck ?s0)" using assms by simp_all
  from dealLoop_Some[OF a, of 0] obtain d ps where
    r: "dealLoop 52 0 ?s0 = Some (?s0\<lparr>deck := d, players := ps\<rparr>)"
    and ld: "length d + 52 = length (deck ?s0)"
    and lp: "length ps = length (players ?s0)"
    and ht: "handTotal ps = handTotal (players ?s0) + 52"
    by blast
  have d: "d = []" using ld assms(2) by simp
  have "dealCards s = Some (s\<lparr>deck := [], players := map sortHand ps\<rparr>)"
    using r d by (simp add: dealCards_def)
  moreover have "length (map sortHand ps) = length (players s)" using lp by simp
  moreover have "handTotal (map sortHand ps) = 52" using ht by (simp add: handTotal_reset)
  ultimately show ?thesis by blast
qed

lemma startNextRound_Some:
  assumes "players s \<noteq> []"
  shows "\<exists>ps. startNextRound rnd s =
             Some (s\<lparr>currentPlayerIndex := (currentPlayerIndex s + 1) mod length (players s),
                     deck := [], players := ps, state := ''BIDDING'',
                     isBiddingActive := True, bidsTaken := 0\<rparr>)
           \<and> length ps = length (players s)
           \<and> handTotal ps = 52"
proof -
  let ?s1 = "s\<lparr>currentPlayerIndex := (currentPlayerIndex s + 1) mod length (players s),
                deck := shuffle rnd reset\<rparr>"
  have a: "players ?s1 \<noteq> []" "length (deck ?s1) = 52" using assms by simp_all
  from dealCards_Some[OF a] obtain ps where
    r: "dealCards ?s1 = Some (?s1\<lparr>deck := [], players := ps\<rparr>)"
    and lp: "length ps = length (players ?s1)"
    and ht: "handTotal ps = 52"
    by blast
  have "(currentPlayerIndex s + 1) mod length (players s) < length ps"
    using lp assms by simp
  then have "startNextRound rnd s =
             Some (s\<lparr>currentPlayerIndex := (currentPlayerIndex s + 1) mod length (players s),
                     deck := [], players := ps, state := ''BIDDING'',
                     isBiddingActive := True, bidsTaken := 0\<rparr>)"
    using r by (simp add: startNextRound_def startBidding_def)
  with lp ht show ?thesis by auto
qed

subsection \<open>Contract scoring\<close>

lemma updateFirstOnTeam_length [simp]: "length (updateFirstOnTeam t f ps) = length ps"
  by (simp add: updateFirstOnTeam_def split: option.splits)

lemma scoreTeamContract_length [simp]: "length (scoreTeamContract e ps) = length ps"
  by (simp add: scoreTeamContract_def Let_def)

lemma teamIds_four:
  assumes "map team ps = [2, 1, 2, 1]"
  shows "teamIds ps = [1, 2]"
proof -
  have "set (map team ps) = {1, 2}" using assms by auto
  then have "teamIds ps = sorted_list_of_set {1, 2 :: nat}" by (simp add: teamIds_def)
  then show ?thesis by simp
qed

lemma scoreContracts_four:
  assumes "map team ps = [2, 1, 2, 1]"
  shows "scoreContracts ps =
    scoreTeamContract
      (2, sum_list (map bidNumber (onTeam 2 ps)),
       foldl addTricks (Some 0) (map tricksWon (onTeam 2 ps)))
      (scoreTeamContract
        (1, sum_list (map bidNumber (onTeam 1 ps)),
         foldl addTricks (Some 0) (map tricksWon (onTeam 1 ps))) ps)"
  by (simp add: scoreContracts_def teamTotals_def teamIds_four[OF assms])

lemma floor_ceiling_half: "\<lfloor>of_int x / (2 :: rat)\<rfloor> + \<lceil>of_int x / (2 :: rat)\<rceil> = x"
proof (cases "even x")
  case True
  then obtain k where "x = 2 * k" by (auto elim: evenE)
  then show ?thesis by simp
next
  case False
  then obtain k where x: "x = 2 * k + 1" by (auto elim: oddE)
  have h: "of_int x / (2 :: rat) = of_int k + 1 / 2" by (simp add: x add_divide_distrib)
  have "\<lfloor>of_int k + 1 / (2 :: rat)\<rfloor> = k" by (simp add: floor_eq_iff)
  moreover have "\<lceil>of_int k + 1 / (2 :: rat)\<rceil> = k + 1" by (simp add: ceiling_eq_iff)
  ultimately show ?thesis unfolding h by (simp add: x)
qed

lemma scoreTeam_effect:
  assumes "ti + 2 < length (Game.players g)"
  shows "(if ti = 0 then team1 (scoreTeam ti g) else team2 (scoreTeam ti g)) =
           (if ti = 0 then team1 g else team2 g)
           + fst (contractScore (Game.players g ! ti) (Game.players g ! (ti + 2)))
           - (if snd (contractScore (Game.players g ! ti) (Game.players g ! (ti + 2))) \<ge> 10
              then 100 else 0)"
    and "GamePlayer.bags (Game.players (scoreTeam ti g) ! ti)
           + GamePlayer.bags (Game.players (scoreTeam ti g) ! (ti + 2)) =
           snd (contractScore (Game.players g ! ti) (Game.players g ! (ti + 2)))
           - (if snd (contractScore (Game.players g ! ti) (Game.players g ! (ti + 2))) \<ge> 10
              then 10 else 0)"
proof -
  let ?p1 = "Game.players g ! ti" and ?p2 = "Game.players g ! (ti + 2)"
  let ?gain = "snd (contractScore ?p1 ?p2) - (GamePlayer.bags ?p1 + GamePlayer.bags ?p2)"
  have lt: "ti < length (Game.players g)" using assms by simp
  have tot: "GamePlayer.bags ?p1 + \<lfloor>of_int ?gain / (2 :: rat)\<rfloor>
             + (GamePlayer.bags ?p2 + \<lceil>of_int ?gain / (2 :: rat)\<rceil>)
             = snd (contractScore ?p1 ?p2)"
    using floor_ceiling_half[of ?gain] by linarith
  show "(if ti = 0 then team1 (scoreTeam ti g) else team2 (scoreTeam ti g)) =
           (if ti = 0 then team1 g else team2 g)
           + fst (contractScore ?p1 ?p2)
           - (if snd (contractScore ?p1 ?p2) \<ge> 10 then 100 else 0)"
    unfolding scoreTeam_def Let_def addTeamScore_def using tot by (cases "ti = 0") simp_all
  show "GamePlayer.bags (Game.players (scoreTeam ti g) ! ti)
           + GamePlayer.bags (Game.players (scoreTeam ti g) ! (ti + 2)) =
           snd (contractScore ?p1 ?p2)
           - (if snd (contractScore ?p1 ?p2) \<ge> 10 then 10 else 0)"
    unfolding scoreTeam_def Let_def addTeamScore_def
    using tot assms lt floor_ceiling_half[of "snd (contractScore ?p1 ?p2) - 10"]
    by (cases "ti = 0") (simp_all add: nth_list_update)
qed

lemma applyTeamBags_length [simp]: "length (applyTeamBags t ps) = length ps"
  by (simp add: applyTeamBags_def Let_def)

lemma calculateAndApplyBags_length [simp]: "length (calculateAndApplyBags ps) = length ps"
proof -
  have "length (foldl (\<lambda>acc teamId. applyTeamBags teamId acc) qs ts) = length qs" for qs ts
    by (induction ts arbitrary: qs) simp_all
  then show ?thesis by (simp add: calculateAndApplyBags_def)
qed

lemma scoreContracts_length [simp]: "length (scoreContracts ps) = length ps"
proof -
  have "length (foldl (\<lambda>acc entry. scoreTeamContract entry acc) qs es) = length qs" for qs es
    by (induction es arbitrary: qs) simp_all
  then show ?thesis by (simp add: scoreContracts_def)
qed

lemma scoreTeam_maxScore [simp]: "maxScore (scoreTeam ti g) = maxScore g"
  by (simp add: scoreTeam_def addTeamScore_def Let_def)

text \<open>The definitions that evaluate the scoring of \<^verbatim>\<open>endRound\<close> on four seated players.\<close>

lemmas score_evals = seatPlayer_def teamScore_def teamBagTotal_def onTeam_def
  scoreContracts_four scoreTeamContract_def updateFirstOnTeam_def bidNumber_def
  calculateAndApplyBags_def teamIds_four applyTeamBags_def Let_def

lemmas game_evals = emptyGame_def gameAnn_def scoreTeam_def contractScore_def
  standardScore_def nilScore_def partnerScore_def addTeamScore_def Let_def
  numeral_3_eq_3 numeral_2_eq_2

subsection \<open>A single Nil bid in a partnership\<close>

text \<open>
  Claim C1 has a Nil bid score 100 when its bidder took no trick. \<^verbatim>\<open>endRound\<close> of
  \<^verbatim>\<open>GameManager.js\<close> reads the tricks of a player from \<^verbatim>\<open>tricksWon\<close>, a property that
  neither \<^verbatim>\<open>Player.js\<close> nor \<^verbatim>\<open>addPlayer\<close> gives a player (the constructor has
  \<^verbatim>\<open>tricksTaken\<close>) and that nothing assigns. So \<^verbatim>\<open>p.tricksWon === 0\<close> is false and every
  total of tricks is NaN: on the players of \<open>nilTable\<close>, bids Nil, 3, 4 and 3 and no
  trick recorded on anyone, the Nil bidder loses 100, both partnerships lose ten times
  their bid, and no bag is counted. \<^verbatim>\<open>Game.js\<close> scores the same bids, the Nil bidder
  without a trick and its partner with four, as the claim has it: 100 and 40.
\<close>

theorem nil_without_tricks_loses_100:
  "map team nilTable = [2, 1, 2, 1]
   \<and> map bid nilTable = [Some 0, Some 3, Some 4, Some 3]
   \<and> map isNil nilTable = [True, False, False, False]
   \<and> map tricksTaken nilTable = [0, 0, 0, 0]
   \<and> map tricksWon nilTable = [None, None, None, None]
   \<and> map tricksWon (players (lobby 500 [lit ''ann'', lit ''bob'', lit ''cat'', lit ''dan'']
                                :: int GameManager))
       = [None, None, None, None]
   \<and> map score nilTable = [0, 0, 0, 0]
   \<and> map score (scoreContracts nilTable) = [- 140, - 60, - 40, - 60]
   \<and> map bags (scoreContracts nilTable) = [0, 0, 0, 0]
   \<and> map score (players (afterScoring (playTable\<lparr>players := nilTable\<rparr>)))
       = [- 140, - 60, - 40, - 60]
   \<and> teamScore 2 (players (afterScoring (playTable\<lparr>players := nilTable\<rparr>))) = - 90
   \<and> teamBagTotal 2 (players (afterScoring (playTable\<lparr>players := nilTable\<rparr>))) = 0
   \<and> contractScore (Game.players madeNilGame ! 0) (Game.players madeNilGame ! 2) = (140, 0)
   \<and> teamPoints 0 (scoreTeam 0 madeNilGame) = teamPoints 0 madeNilGame + 100 + 40"
proof -
  have a: "map team nilTable = [2, 1, 2, 1]"
    "map bid nilTable = [Some 0, Some 3, Some 4, Some 3]"
    "map isNil nilTable = [True, False, False, False]"
    "map tricksTaken nilTable = [0, 0, 0, 0]"
    "map tricksWon nilTable = [None, None, None, None]"
    "map score nilTable = [0, 0, 0, 0]"
    by (simp_all add: nilTable_def seatPlayer_def)
  have l: "map tricksWon (players (lobby 500 [lit ''ann'', lit ''bob'', lit ''cat'', lit ''dan'']
                                :: int GameManager))
       = [None, None, None, None]"
    by (simp add: lobby_def constructor_def addPlayer_def)
  have s: "map score (scoreContracts nilTable) = [- 140, - 60, - 40, - 60]"
    "map bags (scoreContracts nilTable) = [0, 0, 0, 0]"
    by (simp_all add: nilTable_def score_evals)
  have e: "map score (players (afterScoring (playTable\<lparr>players := nilTable\<rparr>)))
       = [- 140, - 60, - 40, - 60]"
    "teamScore 2 (players (afterScoring (playTable\<lparr>players := nilTable\<rparr>))) = - 90"
    "teamBagTotal 2 (players (afterScoring (playTable\<lparr>players := nilTable\<rparr>))) = 0"
    unfolding afterScoring_def by (simp_all add: nilTable_def score_evals)
  have g: "contractScore (Game.players madeNilGame ! 0) (Game.players madeNilGame ! 2) = (140, 0)"
    "teamPoints 0 (scoreTeam 0 madeNilGame) = teamPoints 0 madeNilGame + 100 + 40"
    by (simp_all add: madeNilGame_def teamPoints_def game_evals)
  from a l s e g show ?thesis by blast
qed

subsection \<open>The end of the game\<close>

text \<open>
  In \<^verbatim>\<open>Game.js\<close> a low score ends the game too: in \<open>lowGame\<close> the scores become \<open>-230\<close>
  and 140 against a maximum of 500, and \<^verbatim>\<open>calculateRoundScores\<close> reports the game over.
\<close>

theorem low_score_ends_game:
  "maxScore lowGame = 500
   \<and> calculateRoundScores lowGame = Some (True, scoreTeam 1 (scoreTeam 0 lowGame))
   \<and> team1 (scoreTeam 1 (scoreTeam 0 lowGame)) = - 230
   \<and> team2 (scoreTeam 1 (scoreTeam 0 lowGame)) = 140"
  by (simp add: calculateRoundScores_def lowGame_def emptyGame_def gameAnn_def scoreTeam_def
      contractScore_def standardScore_def addTeamScore_def isGameOver_def Let_def
      numeral_3_eq_3 numeral_2_eq_2)

text \<open>
  C7, as the two engines implement it. When \<^verbatim>\<open>GameManager.endRound\<close> has scored a round,
  penalties included, and a partnership's announced score is at least the target, the
  engine stays in the scored state, in which every bid and every play is refused;
  otherwise, and in no other case, the next round is dealt, 52 cards to the hands, and
  bidding reopens with the turn moved on by one seat. \<^verbatim>\<open>Game.calculateRoundScores\<close>
  reports the game over when a partnership's score is at least the maximum, and also
  when one is \<open>-200\<close> or lower.
\<close>

theorem game_ends_at_target:
  assumes "players s \<noteq> []" and "\<not> isBiddingActive s" and "4 \<le> length (Game.players g)"
  shows "(let s' = afterScoring s;
              over = (teamScore 1 (players s') \<ge> of_int (targetScore s)
                      \<or> teamScore 2 (players s') \<ge> of_int (targetScore s))
          in (over \<longrightarrow> endRound rnd s = Some s'
                \<and> processBid pid raw s' = Refused BiddingInactive s'
                \<and> processCardPlay pid raw s' = Refused TrickInactive s')
           \<and> (\<not> over \<longrightarrow>
                (\<exists>ps. endRound rnd s =
                   Some (s'\<lparr>currentPlayerIndex :=
                               (currentPlayerIndex s + 1) mod length (players s),
                            deck := [], players := ps, state := ''BIDDING'',
                            isBiddingActive := True, bidsTaken := 0\<rparr>)
                   \<and> length ps = length (players s) \<and> handTotal ps = 52)))
       \<and> (let g' = scoreTeam 1 (scoreTeam 0 g)
          in calculateRoundScores g =
               Some (team1 g' \<ge> maxScore g \<or> team2 g' \<ge> maxScore g
                     \<or> team1 g' \<le> - 200 \<or> team2 g' \<le> - 200, g'))"
proof -
  let ?s' = "afterScoring s"
  let ?over = "teamScore 1 (players ?s') \<ge> of_int (targetScore s)
               \<or> teamScore 2 (players ?s') \<ge> of_int (targetScore s)"
  have er: "endRound rnd s = (if ?over then Some ?s' else startNextRound rnd ?s')"
    by (simp add: endRound_def afterScoring_def Let_def checkGameEnd_def announceTeamScores_def)
  have len: "length (players ?s') = length (players s)" by (simp add: afterScoring_def)
  have ne: "players ?s' \<noteq> []"
    using assms(1) len by (metis length_0_conv)
  have cpi: "currentPlayerIndex ?s' = currentPlayerIndex s" by (simp add: afterScoring_def)
  have nb: "\<not> isBiddingActive ?s'" "\<not> isTrickActive ?s'"
    using assms(2) by (simp_all add: afterScoring_def)
  have a1: "processBid pid raw ?s' = Refused BiddingInactive ?s'"
    using nb(1) by (simp add: processBid_def)
  have a2: "processCardPlay pid raw ?s' = Refused TrickInactive ?s'"
    using nb(2) by (simp add: processCardPlay_def)
  have a: "?over \<longrightarrow> endRound rnd s = Some ?s'
                \<and> processBid pid raw ?s' = Refused BiddingInactive ?s'
                \<and> processCardPlay pid raw ?s' = Refused TrickInactive ?s'"
    using a1 a2 er by simp
  from startNextRound_Some[OF ne, of rnd] obtain ps where
    nr: "startNextRound rnd ?s' =
           Some (?s'\<lparr>currentPlayerIndex :=
                       (currentPlayerIndex ?s' + 1) mod length (players ?s'),
                    deck := [], players := ps, state := ''BIDDING'',
                    isBiddingActive := True, bidsTaken := 0\<rparr>)"
    and lp: "length ps = length (players ?s')" and ht: "handTotal ps = 52"
    by blast
  have b: "\<not> ?over \<longrightarrow>
                (\<exists>ps. endRound rnd s =
                   Some (?s'\<lparr>currentPlayerIndex :=
                               (currentPlayerIndex s + 1) mod length (players s),
                            deck := [], players := ps, state := ''BIDDING'',
                            isBiddingActive := True, bidsTaken := 0\<rparr>)
                   \<and> length ps = length (players s) \<and> handTotal ps = 52)"
  proof
    assume "\<not> ?over"
    then have "endRound rnd s = startNextRound rnd ?s'" using er by simp
    then show "\<exists>ps. endRound rnd s =
                   Some (?s'\<lparr>currentPlayerIndex :=
                               (currentPlayerIndex s + 1) mod length (players s),
                            deck := [], players := ps, state := ''BIDDING'',
                            isBiddingActive := True, bidsTaken := 0\<rparr>)
                   \<and> length ps = length (players s) \<and> handTotal ps = 52"
      using nr lp ht unfolding len cpi by (intro exI[of _ ps]) simp
  qed
  have c: "calculateRoundScores g =
             Some (team1 (scoreTeam 1 (scoreTeam 0 g)) \<ge> maxScore g
                   \<or> team2 (scoreTeam 1 (scoreTeam 0 g)) \<ge> maxScore g
                   \<or> team1 (scoreTeam 1 (scoreTeam 0 g)) \<le> - 200
                   \<or> team2 (scoreTeam 1 (scoreTeam 0 g)) \<le> - 200, scoreTeam 1 (scoreTeam 0 g))"
    using assms(3) by (simp add: calculateRoundScores_def isGameOver_def Let_def)
  show ?thesis unfolding Let_def using a b c by blast
qed

theorem game_ends_at_target_witness:
  "players wonTable \<noteq> [] \<and> \<not> isBiddingActive wonTable \<and> 4 \<le> length (Game.players nilGame)
   \<and> teamScore 1 (players (afterScoring wonTable)) = 540
   \<and> targetScore wonTable = 500
   \<and> endRound (\<lambda>_. 0) wonTable = Some (afterScoring wonTable)
   \<and> processBid (lit ''bob'') (lit ''3'') (afterScoring wonTable)
       = Refused BiddingInactive (afterScoring wonTable)
   \<and> calculateRoundScores nilGame = Some (False, scoreTeam 1 (scoreTeam 0 nilGame))"
proof -
  have p: "players wonTable = map (\<lambda>p. p\<lparr>score := 600\<rparr>) nilTable"
    by (simp add: wonTable_def playTable_def)
  have ts: "teamScore 1 (players (afterScoring wonTable)) = 540"
    unfolding afterScoring_def
    by (simp add: p nilTable_def score_evals)
  have tg: "targetScore wonTable = 500" "\<not> isBiddingActive wonTable"
    by (simp_all add: wonTable_def playTable_def smallTable_def)
  have h: "\<lceil>1 / (2 :: rat)\<rceil> = 1" "\<lfloor>1 / (2 :: rat)\<rfloor> = 0"
    by (simp_all add: ceiling_eq_iff floor_eq_iff)
  have g: "team1 (scoreTeam 1 (scoreTeam 0 nilGame)) = - 60"
    "team2 (scoreTeam 1 (scoreTeam 0 nilGame)) = 60" "maxScore nilGame = 500"
    "length (Game.players nilGame) = 4"
    by (simp_all add: nilGame_def game_evals h)
  show ?thesis
    using game_ends_at_target[of wonTable nilGame "\<lambda>_. 0" "lit ''bob''" "lit ''3''"]
      ts tg g
    unfolding Let_def
    by (simp add: p nilTable_def)
qed

subsection \<open>The bag penalty\<close>

text \<open>
  C6 asks for a penalty of 100 for every ten bags. \<^verbatim>\<open>scoreTeam\<close> of \<^verbatim>\<open>Game.js\<close> tests
  the total once: the partnership of \<open>bagGame\<close>, nine bags carried and eleven gained,
  makes 20 for its bid, pays 100 and keeps ten bags, where C6 has it pay 200 and keep
  none. \<^verbatim>\<open>calculateAndApplyBags\<close> of \<^verbatim>\<open>GameManager.js\<close> does take 200 from each of the two
  players in the same round and leaves no bag.
\<close>

theorem bag_penalty_taken_once:
  "pairBags 0 bagGame = 9
   \<and> contractScore (Game.players bagGame ! 0) (Game.players bagGame ! 2) = (20, 20)
   \<and> teamPoints 0 (scoreTeam 0 bagGame) = teamPoints 0 bagGame + 20 - 100
   \<and> pairBags 0 (scoreTeam 0 bagGame) = 10
   \<and> teamBagTotal 2 bagTable = 9
   \<and> teamBagTotal 2 (scoreContracts bagTable) = 20
   \<and> teamScore 2 (calculateAndApplyBags (scoreContracts bagTable))
       = teamScore 2 bagTable + 20 - 200
   \<and> teamBagTotal 2 (calculateAndApplyBags (scoreContracts bagTable)) = 0"
proof -
  have l: "2 < length (Game.players bagGame)" 
    by (simp add: bagGame_def emptyGame_def)
  have c: "contractScore (Game.players bagGame ! 0) (Game.players bagGame ! 2) = (20, 20)"
    by (simp add: bagGame_def emptyGame_def gameAnn_def contractScore_def standardScore_def
        Let_def numeral_2_eq_2)
  have pb: "pairBags 0 bagGame = 9"
    by (simp add: pairBags_def bagGame_def emptyGame_def gameAnn_def numeral_2_eq_2)
  have g1: "teamPoints 0 (scoreTeam 0 bagGame) = teamPoints 0 bagGame + 20 - 100"
    using scoreTeam_effect(1)[of 0 bagGame] l c by (simp add: teamPoints_def numeral_2_eq_2)
  have g2: "pairBags 0 (scoreTeam 0 bagGame) = 10"
    using scoreTeam_effect(2)[of 0 bagGame] l c by (simp add: pairBags_def numeral_2_eq_2)
  have m: "teamBagTotal 2 bagTable = 9
   \<and> teamBagTotal 2 (scoreContracts bagTable) = 20
   \<and> teamScore 2 (calculateAndApplyBags (scoreContracts bagTable))
       = teamScore 2 bagTable + 20 - 200
   \<and> teamBagTotal 2 (calculateAndApplyBags (scoreContracts bagTable)) = 0"
    by (simp add: bagTable_def seatPlayer_def teamScore_def teamBagTotal_def onTeam_def
      scoreContracts_four scoreTeamContract_def updateFirstOnTeam_def bidNumber_def
      calculateAndApplyBags_def teamIds_four applyTeamBags_def Let_def)
  show ?thesis using pb c g1 g2 m by blast
qed

subsection \<open>The turn after the last bid\<close>

lemma validateBid_digit:
  "validateBid (lit ''3'') = Some (Num 3)" "validateBid (lit ''4'') = Some (Num 4)"
  by (simp_all add: validateBid_def parseInt_def digitsValue_def isDigit_def str_evals Let_def)

lemma processBid_Done:
  assumes "isBiddingActive s" and "currentPlayerIndex s < length (players s)"
    and "discordId (players s ! currentPlayerIndex s) = pid"
    and "validateBid raw = Some (Num n)"
  shows "processBid pid raw s = Done (recordBid n s)"
  using assms placeBid_Done[OF assms(2), of n] by (simp add: processBid_def)

lemma recordBid_early:
  assumes "bidsTaken s + 1 < length (players s)"
  shows "recordBid n s =
           s\<lparr>players := (players s)[currentPlayerIndex s :=
                            setBid n (players s ! currentPlayerIndex s)],
             bidsTaken := bidsTaken s + 1,
             currentPlayerIndex := (currentPlayerIndex s + 1) mod length (players s)\<rparr>"
  using assms by (simp add: recordBid_def placeBid_def advanceTurn_def Let_def)

lemma recordBid_last:
  assumes "\<not> bidsTaken s + 1 < length (players s)"
  shows "currentPlayerIndex (recordBid n s) = currentPlayerIndex s"
    and "state (recordBid n s) = state s"
    and "isTrickActive (recordBid n s)" and "\<not> isBiddingActive (recordBid n s)"
    and "currentTrick (recordBid n s) = []"
  using assms
  by (simp_all add: recordBid_def placeBid_def endBidding_def startTricks_def
      sendPlayCardPrompt_def getHandDisplay_def Let_def)

lemma recordBid_last_bids:
  assumes "\<not> bidsTaken s + 1 < length (players s)"
    and "currentPlayerIndex s < length (players s)"
  shows "map bid (players (recordBid n s)) =
           (map bid (players s))[currentPlayerIndex s := Some n]"
  using assms
  by (simp add: recordBid_def placeBid_def endBidding_def startTricks_def
      sendPlayCardPrompt_def getHandDisplay_def Let_def map_update setBid_def sortHand_def)

lemma nth_discordId:
  "map discordId ps = ids \<Longrightarrow> i < length ps \<Longrightarrow> discordId (ps ! i) = ids ! i"
  by auto

lemma smallTable_fields:
  "isBiddingActive (smallTable :: int GameManager)"
  "currentPlayerIndex (smallTable :: int GameManager) = 0"
  "bidsTaken (smallTable :: int GameManager) = 0"
  "state (smallTable :: int GameManager) = ''BIDDING''"
  "map discordId (players (smallTable :: int GameManager))
     = [lit ''ann'', lit ''bob'', lit ''cat'', lit ''dan'']"
  by (simp_all add: smallTable_def seatPlayer_def)

text \<open>
  C2 has the seat that bid first lead the first trick, in a phase named PLAYING.
  \<^verbatim>\<open>processBid\<close> advances the turn after each of the first three bids and not after the
  fourth, and \<^verbatim>\<open>endBidding\<close> and \<^verbatim>\<open>startTricks\<close> leave \<^verbatim>\<open>currentPlayerIndex\<close> and
  \<^verbatim>\<open>state\<close> alone. With the first seat bidding first, trick play opens with the turn at
  the fourth seat, the last to bid, and \<^verbatim>\<open>state\<close> still \<^verbatim>\<open>'BIDDING'\<close>.
\<close>

theorem last_bidder_leads_first_trick:
  "currentPlayerIndex (smallTable :: int GameManager) = 0
   \<and> (\<exists>s. run fourBids smallTable = Some s
          \<and> map bid (players s) = [Some 3, Some 3, Some 4, Some 3]
          \<and> \<not> isBiddingActive s \<and> isTrickActive s \<and> currentTrick s = []
          \<and> currentPlayerIndex s = 3 \<and> state s = ''BIDDING'')"
proof -
  let ?s0 = "smallTable :: int GameManager"
  have d: "lit ''ann'' \<noteq> lit ''bob''" by (simp add: lit_def)
  have p0: "map discordId (players ?s0) = [lit ''ann'', lit ''bob'', lit ''cat'', lit ''dan'']"
    and l0: "length (players ?s0) = 4"
    by (simp_all add: smallTable_def seatPlayer_def)
  define s1 where "s1 = recordBid 3 ?s0"
  define s2 where "s2 = recordBid 3 s1"
  define s3 where "s3 = recordBid 4 s2"
  define s4 where "s4 = recordBid 3 s3"
  have f1: "isBiddingActive s1" "currentPlayerIndex s1 = Suc 0" "bidsTaken s1 = Suc 0"
    "state s1 = ''BIDDING''" "length (players s1) = 4"
    "map discordId (players s1) = [lit ''ann'', lit ''bob'', lit ''cat'', lit ''dan'']"
    "map bid (players s1) = [Some 3, None, None, None]"
    unfolding s1_def
    by (simp_all add: recordBid_early smallTable_def seatPlayer_def setBid_def)
  have i1: "discordId (players s1 ! Suc 0) = lit ''bob''"
    using nth_discordId[OF f1(6), of "Suc 0"] f1(5) by simp
  have f2: "isBiddingActive s2" "currentPlayerIndex s2 = 2" "bidsTaken s2 = 2"
    "state s2 = ''BIDDING''" "length (players s2) = 4"
    "map discordId (players s2) = [lit ''ann'', lit ''bob'', lit ''cat'', lit ''dan'']"
    "map bid (players s2) = [Some 3, Some 3, None, None]"
    unfolding s2_def using f1 i1
    by (simp_all add: recordBid_early map_update setBid_def)
  have i2: "discordId (players s2 ! 2) = lit ''cat''"
    using nth_discordId[OF f2(6), of 2] f2(5) by (simp add: numeral_2_eq_2)
  have f3: "isBiddingActive s3" "currentPlayerIndex s3 = 3" "bidsTaken s3 = 3"
    "state s3 = ''BIDDING''" "length (players s3) = 4"
    "map discordId (players s3) = [lit ''ann'', lit ''bob'', lit ''cat'', lit ''dan'']"
    "map bid (players s3) = [Some 3, Some 3, Some 4, None]"
    unfolding s3_def using f2 i2
    by (simp_all add: recordBid_early map_update setBid_def numeral_2_eq_2)
  have i3: "discordId (players s3 ! 3) = lit ''dan''"
    using nth_discordId[OF f3(6), of 3] f3(5) by (simp add: numeral_3_eq_3)
  have last: "\<not> bidsTaken s3 + 1 < length (players s3)" using f3 by simp
  have cl: "currentPlayerIndex s3 < length (players s3)" using f3 by simp
  have f4: "\<not> isBiddingActive s4" "isTrickActive s4" "currentTrick s4 = []"
    "currentPlayerIndex s4 = 3" "state s4 = ''BIDDING''"
    "map bid (players s4) = [Some 3, Some 3, Some 4, Some 3]"
    unfolding s4_def using recordBid_last[OF last, of 3] recordBid_last_bids[OF last cl, of 3] f3
    by (simp_all add: numeral_3_eq_3)
  have r1: "processBid (lit ''ann'') (lit ''3'') ?s0 = Done s1"
    unfolding s1_def
    by (rule processBid_Done) (simp_all add: smallTable_def seatPlayer_def validateBid_digit)
  have r2: "processBid (lit ''bob'') (lit ''3'') s1 = Done s2"
    unfolding s2_def
    by (rule processBid_Done) (simp_all add: f1 i1 validateBid_digit)
  have r3: "processBid (lit ''cat'') (lit ''4'') s2 = Done s3"
    unfolding s3_def
    by (rule processBid_Done) (simp_all add: f2 i2 validateBid_digit)
  have r4: "processBid (lit ''dan'') (lit ''3'') s3 = Done s4"
    unfolding s4_def
    by (rule processBid_Done) (simp_all add: f3 i3 validateBid_digit)
  have "run fourBids smallTable = Some s4"
    by (simp add: fourBids_def r1 r2 r3 r4)
  then show ?thesis using f4 by (simp add: smallTable_fields)
qed

subsection \<open>From one round to the next\<close>

lemma endRound_game_over:
  assumes "checkGameEnd (afterScoring s) (announceTeamScores (afterScoring s))"
  shows "endRound rnd s = Some (afterScoring s)"
  using assms by (simp add: endRound_def afterScoring_def Let_def)

lemma endRound_next_round:
  assumes "players s \<noteq> []"
    and "\<not> checkGameEnd (afterScoring s) (announceTeamScores (afterScoring s))"
  shows "\<exists>ps. endRound rnd s =
           Some (afterScoring s
                  \<lparr>currentPlayerIndex := (currentPlayerIndex s + 1) mod length (players s),
                   deck := [], players := ps, state := ''BIDDING'',
                   isBiddingActive := True, bidsTaken := 0\<rparr>)
           \<and> length ps = length (players s) \<and> handTotal ps = 52"
proof -
  let ?s' = "afterScoring s"
  have len: "length (players ?s') = length (players s)" by (simp add: afterScoring_def)
  have cpi: "currentPlayerIndex ?s' = currentPlayerIndex s" by (simp add: afterScoring_def)
  have ne: "players ?s' \<noteq> []" using assms(1) len by (metis length_0_conv)
  have "endRound rnd s = startNextRound rnd ?s'"
    using assms(2) by (simp add: endRound_def afterScoring_def Let_def)
  then show ?thesis
    using startNextRound_Some[OF ne, of rnd] unfolding len cpi by simp
qed

text \<open>
  C3 has every round start with \<^verbatim>\<open>spadesBroken\<close> false. \<^verbatim>\<open>startRound\<close> of \<^verbatim>\<open>Game.js\<close>
  clears the flag. In \<^verbatim>\<open>GameManager.js\<close> only the constructor does: \<^verbatim>\<open>endRound\<close> and
  \<^verbatim>\<open>startNextRound\<close> deal the next round and reopen bidding with the flag as the last
  round left it, here true.
\<close>

theorem spadesBroken_carried_into_next_round:
  "spadesBroken brokenTable
   \<and> (\<exists>s'. endRound rnd brokenTable = Some s'
           \<and> isBiddingActive s' \<and> bidsTaken s' = 0 \<and> deck s' = []
           \<and> handTotal (players s') = 52 \<and> spadesBroken s')
   \<and> \<not> Game.spadesBroken (startRound rnd arrange (emptyGame\<lparr>Game.spadesBroken := True\<rparr>))"
proof -
  have ne: "players brokenTable \<noteq> []"
    by (simp add: brokenTable_def nilTable_def)
  have sc: "teamScore 1 (players (afterScoring brokenTable)) = - 60"
    "teamScore 2 (players (afterScoring brokenTable)) = - 90"
    "targetScore (afterScoring brokenTable) = 500"
    unfolding afterScoring_def brokenTable_def
    by (simp_all add: nilTable_def playTable_def smallTable_def score_evals)
  have no: "\<not> checkGameEnd (afterScoring brokenTable)
              (announceTeamScores (afterScoring brokenTable))"
    using sc by (simp add: checkGameEnd_def announceTeamScores_def)
  have b: "spadesBroken brokenTable" "spadesBroken (afterScoring brokenTable)"
    by (simp_all add: brokenTable_def afterScoring_def)
  from endRound_next_round[OF ne no, of rnd] b
  have "\<exists>s'. endRound rnd brokenTable = Some s'
           \<and> isBiddingActive s' \<and> bidsTaken s' = 0 \<and> deck s' = []
           \<and> handTotal (players s') = 52 \<and> spadesBroken s'"
    by auto
  moreover have "\<not> Game.spadesBroken
      (startRound rnd arrange (emptyGame\<lparr>Game.spadesBroken := True\<rparr>))"
    by (simp add: startRound_def Let_def)
  ultimately show ?thesis using b by blast
qed

subsection \<open>Naming a card by rank and suit letter\<close>

lemmas play_evals = processBid_def validateBid_def parseInt_def digitsValue_def isDigit_def
  recordBid_def placeBid_def setBid_def advanceTurn_def endBidding_def startTricks_def
  sendPlayCardPrompt_def getHandDisplay_def sortHand_def handKey_def cardValue_def
  processCardPlay_def getPlayerById_def peekCardInHand_def playCard_def str_evals
  evaluateTrick_def getWinnerOfTrick_def trickStep_def endTrick_def Let_def play_def
  fourBids_def firstTrick_def suitTable_def smallTable_def seatPlayer_def suitHand_def

text \<open>
  Claim C8 has a well-formed rank-plus-suit code of a card in the hand resolve to that
  card. The documentation of \<^verbatim>\<open>peekCardInHand\<close> calls its argument the two-character
  code of the card, and the prompts of \<^verbatim>\<open>sendPlayCardPrompt\<close> and \<^verbatim>\<open>processCardPlay\<close> ask
  for \<^verbatim>\<open>'AS'\<close> or \<^verbatim>\<open>'TC'\<close>; that form is the \<^verbatim>\<open>shortDisplay\<close> of a card. The method
  compares the input with \<^verbatim>\<open>card.code\<close>, the rank text followed by the suit symbol.
  After the four bids at \<open>suitTable\<close> the fourth player, who holds the thirteen spades,
  is to lead: \<^verbatim>\<open>'AS'\<close> names the ace of spades in that hand, finds no card, and the play
  is refused as not in the hand; only the \<^verbatim>\<open>code\<close> of the card finds it.
  \<^verbatim>\<open>getCardFromInput\<close> of \<^verbatim>\<open>Game.js\<close> resolves \<^verbatim>\<open>'AS'\<close> to the ace of spades held.
\<close>

theorem rank_suit_code_not_found:
  "isTrickActive (play fourBids suitTable)
   \<and> currentTrick (play fourBids suitTable) = []
   \<and> currentPlayerIndex (play fourBids suitTable) = 3
   \<and> discordId (players (play fourBids suitTable) ! 3) = lit ''dan''
   \<and> hand (players (play fourBids suitTable) ! 3) = suitHand Spades
   \<and> \<lparr>rank = Ace, suit = Spades\<rparr> \<in> set (suitHand Spades)
   \<and> shortDisplay \<lparr>rank = Ace, suit = Spades\<rparr> = lit ''AS''
   \<and> peekCardInHand (players (play fourBids suitTable) ! 3) (lit ''AS'') = None
   \<and> processCardPlay (lit ''dan'') (lit ''AS'') (play fourBids suitTable)
       = Refused CardNotInHand (play fourBids suitTable)
   \<and> peekCardInHand (players (play fourBids suitTable) ! 3)
         (code \<lparr>rank = Ace, suit = Spades\<rparr>)
       = Some \<lparr>rank = Ace, suit = Spades\<rparr>
   \<and> Game.spadesBroken (emptyGame\<lparr>Game.spadesBroken := True\<rparr>)
   \<and> \<lparr>rank = Ace, suit = Spades\<rparr> \<in> set (GamePlayer.hand gameAnn)
   \<and> getCardFromInput (emptyGame\<lparr>Game.spadesBroken := True\<rparr>) gameAnn (lit ''AS'')
       = Inr \<lparr>rank = Ace, suit = Spades\<rparr>"
proof -
  have s: "isTrickActive (play fourBids suitTable)"
    "currentTrick (play fourBids suitTable) = []"
    "currentPlayerIndex (play fourBids suitTable) = 3"
    "discordId (players (play fourBids suitTable) ! 3) = lit ''dan''"
    "hand (players (play fourBids suitTable) ! 3) = suitHand Spades"
    by (simp_all add: play_evals)
  have c: "\<lparr>rank = Ace, suit = Spades\<rparr> \<in> set (suitHand Spades)"
    "shortDisplay \<lparr>rank = Ace, suit = Spades\<rparr> = lit ''AS''"
    by (simp_all add: suitHand_def shortDisplay_def lit_def)
  have p: "peekCardInHand (players (play fourBids suitTable) ! 3) (lit ''AS'') = None"
    "peekCardInHand (players (play fourBids suitTable) ! 3)
         (code \<lparr>rank = Ace, suit = Spades\<rparr>)
       = Some \<lparr>rank = Ace, suit = Spades\<rparr>"
    by (simp_all add: play_evals rankText_def)
  have r: "processCardPlay (lit ''dan'') (lit ''AS'') (play fourBids suitTable)
       = Refused CardNotInHand (play fourBids suitTable)"
    by (simp add: play_evals rankText_def)
  have pr: "parseCardInput (lit ''AS'') = (lit ''S'', lit ''A'')"
    by (simp add: parseCardInput_def possibleSuits_def possibleRanks_def Let_def str_evals)
  have g: "Game.spadesBroken (emptyGame\<lparr>Game.spadesBroken := True\<rparr>)"
    "\<lparr>rank = Ace, suit = Spades\<rparr> \<in> set (GamePlayer.hand gameAnn)"
    "getCardFromInput (emptyGame\<lparr>Game.spadesBroken := True\<rparr>) gameAnn (lit ''AS'')
       = Inr \<lparr>rank = Ace, suit = Spades\<rparr>"
    unfolding getCardFromInput_def pr
    by (simp_all add: getCardByCode_def gameAnn_def emptyGame_def str_evals Let_def)
  from s c p r g show ?thesis by blast
qed

subsection \<open>Where the cards are\<close>

lemma handTotal_less:
  assumes "j < length ps" and "length (hand q) + 1 = length (hand (ps ! j))"
  shows "handTotal (ps[j := q]) + 1 = handTotal ps"
proof -
  have "handTotal ((ps[j := q])[j := ps ! j]) = handTotal (ps[j := q]) + 1"
    by (rule handTotal_update) (use assms in simp_all)
  then show ?thesis by simp
qed

lemma handTotal_sortHand_at [simp]:
  "handTotal (ps[j := sortHand (ps ! j)]) = handTotal ps"
  by (cases "j < length ps") (simp_all add: handTotal_same sortHand_def list_update_beyond)

lemma cardsAccounted_getHandDisplay [simp]:
  "cardsAccounted (getHandDisplay i s) = cardsAccounted s"
  by (simp add: cardsAccounted_def getHandDisplay_def cardCount_def)

lemma cardsAccounted_fields [simp]:
  "cardsAccounted (s\<lparr>currentPlayerIndex := k\<rparr>) = cardsAccounted s"
  "cardsAccounted (s\<lparr>trickSuit := x\<rparr>) = cardsAccounted s"
  "cardsAccounted (s\<lparr>spadesBroken := b\<rparr>) = cardsAccounted s"
  "cardsAccounted (s\<lparr>bidsTaken := n\<rparr>) = cardsAccounted s"
  by (simp_all add: cardsAccounted_def cardCount_def)

lemma cardsAccounted_sendPlayCardPrompt [simp]:
  "cardsAccounted (stateOf (sendPlayCardPrompt i s)) = cardsAccounted s"
  by (simp add: sendPlayCardPrompt_def)

lemma cardsAccounted_advanceTurn [simp]:
  "cardsAccounted (stateOf (advanceTurn ph s)) = cardsAccounted s"
  by (cases ph) (simp_all add: advanceTurn_def Let_def)

lemma stateOf_evaluateTrick [simp]: "stateOf (evaluateTrick s) = s"
  by (simp add: evaluateTrick_def endTrick_def split: option.splits)

text \<open>Recording a bid keeps the cards where they are, also when it ends the bidding.\<close>

lemma cardsAccounted_placeBid:
  assumes "cardsAccounted s" and "isBiddingActive s"
  shows "cardsAccounted (stateOf (placeBid n s))"
proof -
  let ?i = "currentPlayerIndex s"
  let ?s1 = "s\<lparr>players := (players s)[?i := setBid n (players s ! ?i)],
                bidsTaken := bidsTaken s + 1\<rparr>"
  have nt: "\<not> isTrickActive s" "currentTrick s = []"
    using assms by (simp_all add: cardsAccounted_def)
  have h: "handTotal (players ?s1) = handTotal (players s)"
    by (cases "?i < length (players s)")
       (simp_all add: handTotal_same setBid_def list_update_beyond)
  have a1: "cardsAccounted ?s1"
    using assms(1) h nt by (simp add: cardsAccounted_def cardCount_def)
  have a2: "cardsAccounted (stateOf (endBidding ?s1))"
  proof -
    let ?s2 = "?s1\<lparr>isBiddingActive := False, isTrickActive := True, currentTrick := [],
                   trickSuit := None\<rparr>"
    have c: "cardsAccounted ?s2"
      using assms(1) h nt by (simp add: cardsAccounted_def cardCount_def)
    have "stateOf (endBidding ?s1) = ?s2
          \<or> stateOf (endBidding ?s1) = stateOf (sendPlayCardPrompt ?i ?s2)"
      by (simp add: endBidding_def startTricks_def Let_def)
    then show ?thesis using c by auto
  qed
  show ?thesis
    unfolding placeBid_def Let_def using a1 a2 by simp
qed

lemma processBid_cards:
  assumes "cardsAccounted s"
  shows "cardsAccounted (stateOf (processBid pid raw s))"
  using assms cardsAccounted_placeBid[OF assms]
  by (simp add: processBid_def split: option.splits)

lemma tryPlaceBid_cards:
  assumes "cardsAccounted s"
  shows "cardsAccounted (stateOf (tryPlaceBid pid v s))"
  using assms cardsAccounted_placeBid[OF assms]
  by (simp add: tryPlaceBid_def split: jsval.splits)

text \<open>
  A card that is played moves from a hand to the trick, and the exception that ends the
  call leaves it there.
\<close>

lemma play_step_cards:
  assumes "cardsAccounted s" and "isTrickActive s" and "ix < length (players s)"
    and "length (hand p') + 1 = length (hand (players s ! ix))"
  shows "cardsAccounted (s\<lparr>players := (players s)[ix := p'],
                           currentTrick := currentTrick s @ [e]\<rparr>)"
proof -
  have nb: "\<not> isBiddingActive s" using assms(1,2) by (auto simp: cardsAccounted_def)
  have "handTotal ((players s)[ix := p']) + 1 = handTotal (players s)"
    using assms(3,4) by (rule handTotal_less)
  then show ?thesis using assms(1) nb by (simp add: cardsAccounted_def cardCount_def)
qed

lemma processCardPlay_cards:
  assumes "cardsAccounted s"
  shows "cardsAccounted (stateOf (processCardPlay pid raw s))"
proof (cases "isTrickActive s")
  case False
  then show ?thesis using assms by (simp add: processCardPlay_def)
next
  case act: True
  show ?thesis
  proof (cases "getPlayerById s pid")
    case None
    then show ?thesis using assms act by (simp add: processCardPlay_def)
  next
    case (Some ix)
    then have ix: "ix < length (players s)"
      using findIndex_Some[of "\<lambda>p. discordId p = pid" "players s" ix]
      by (simp add: getPlayerById_def)
    show ?thesis
    proof (cases "peekCardInHand (players s ! ix) raw")
      case None
      then show ?thesis using assms act Some by (simp add: processCardPlay_def)
    next
      case pk: (Some c)
      from playCard_plays_peeked[OF pk] obtain p' where
        pc: "playCard (toUpperCase (trim raw)) (players s ! ix) = (Some c, p')"
        and len: "length (hand p') + 1 = length (hand (players s ! ix))"
        by blast
      let ?e = "\<lparr>playerId = pid, card = c\<rparr>"
      have played: "cardsAccounted (s\<lparr>players := (players s)[ix := p'],
                                      currentTrick := currentTrick s @ [?e]\<rparr>)"
        using assms act ix len by (rule play_step_cards)
      have upd: "cardsAccounted (t\<lparr>players := ps, currentTrick := tr\<rparr>)
                 \<Longrightarrow> cardsAccounted (t\<lparr>trickSuit := x, players := ps, currentTrick := tr\<rparr>)"
        for t :: "'a GameManager" and ps tr x
        by (simp add: cardsAccounted_def cardCount_def)
      show ?thesis
      proof (cases "currentTrick s = []")
        case True
        show ?thesis
          unfolding processCardPlay_def Let_def
          using act Some pk pc True assms played upd[OF played]
          by simp
      next
        case False
        show ?thesis
          unfolding processCardPlay_def Let_def
          using act Some pk pc False assms played
          by simp
      qed
    qed
  qed
qed

lemma handle_cards: "cardsAccounted s \<Longrightarrow> cardsAccounted (stateOf (handle ev s))"
  by (cases ev) (simp_all add: processBid_cards processCardPlay_cards)

lemma play_cards: "cardsAccounted s \<Longrightarrow> cardsAccounted (play evs s)"
  unfolding play_def by (induction evs arbitrary: s) (simp_all add: handle_cards)

text \<open>
  The lobby: however many players ask to join, the deck is whole, no hand holds a card
  and nothing has begun.
\<close>

lemma lobby_fields:
  fixes s :: "'a GameManager"
  assumes "s = lobby target ids"
  shows "deck s = reset \<and> handTotal (players s) = 0 \<and> currentTrick s = []
         \<and> \<not> isBiddingActive s \<and> \<not> isTrickActive s \<and> currentPlayerIndex s = 0"
proof -
  let ?L = "\<lambda>s :: 'a GameManager. deck s = reset \<and> handTotal (players s) = 0
              \<and> currentTrick s = [] \<and> \<not> isBiddingActive s \<and> \<not> isTrickActive s
              \<and> currentPlayerIndex s = 0"
  have step: "?L u \<Longrightarrow> ?L (stateOf (addPlayer pid u))" for pid u
    by (simp add: addPlayer_def handTotal_def)
  have fold: "?L u \<Longrightarrow> ?L (foldl (\<lambda>s pid. stateOf (addPlayer pid s)) u ids)" for u
  proof (induction ids arbitrary: u)
    case Nil
    then show ?case by simp
  next
    case (Cons a ids)
    from step[OF Cons.prems] have "?L (stateOf (addPlayer a u))" .
    from Cons.IH[OF this] show ?case by simp
  qed
  have "?L (constructor target)"
    by (simp add: constructor_def handTotal_def)
  from fold[OF this] show ?thesis unfolding assms lobby_def .
qed

lemma startGame_cards:
  "cardsAccounted (stateOf (startGame rnd (lobby target ids :: 'a GameManager)))"
proof -
  define s :: "'a GameManager" where "s = lobby target ids"
  note lf = lobby_fields[OF s_def]
  let ?s0 = "s\<lparr>isGameActive := True, deck := shuffle rnd reset\<rparr>"
  have "cardsAccounted (stateOf (startGame rnd s))"
  proof (cases "length (players s) = 4")
    case False
    then show ?thesis
      using lf by (simp add: startGame_def cardsAccounted_def cardCount_def)
  next
    case True
    have a: "players ?s0 \<noteq> []" "length (deck ?s0) = 52" using True by auto
    from dealCards_Some[OF a] obtain ps where
      r: "dealCards ?s0 = Some (?s0\<lparr>deck := [], players := ps\<rparr>)"
      and lp: "length ps = length (players ?s0)" and ht: "handTotal ps = 52"
      by blast
    have "startGame rnd s =
            Done (?s0\<lparr>deck := [], players := ps, state := ''BIDDING'',
                      isBiddingActive := True, bidsTaken := 0\<rparr>)"
      using True r lp lf by (simp add: startGame_def startBidding_def)
    then show ?thesis using ht lf by (simp add: cardsAccounted_def cardCount_def)
  qed
  then show ?thesis unfolding s_def .
qed

text \<open>
  Claim C5. In every state a game reaches from its beginning (players joining,
  \<^verbatim>\<open>startGame\<close>, then bids and cards, accepted, refused or ended by an exception) the
  cards in the hands, in the trick in progress and in the deck number 52. It holds of
  every state in which that is so and no trick lies on the table while bidding is open
  that a bid or a card, typed or sent by button, leaves such a state. No trick is ever
  completed and cleared: \<^verbatim>\<open>endTrick\<close> throws at \<^verbatim>\<open>winner.addTrick()\<close>, before it empties
  \<^verbatim>\<open>currentTrick\<close>, and the cards of the trick stay counted.
\<close>

theorem cards_of_a_round:
  "cardCount (play evs (stateOf (startGame rnd (lobby target ids)))) = 52
   \<and> (cardsAccounted s \<longrightarrow> cardsAccounted (play evs s))
   \<and> (cardsAccounted t \<longrightarrow> cardsAccounted (stateOf (tryPlaceBid pid v t)))"
proof -
  have "cardsAccounted (play evs (stateOf (startGame rnd (lobby target ids))))"
    by (rule play_cards) (rule startGame_cards)
  then have "cardCount (play evs (stateOf (startGame rnd (lobby target ids)))) = 52"
    by (simp add: cardsAccounted_def)
  then show ?thesis by (simp add: play_cards tryPlaceBid_cards)
qed

theorem cards_of_a_round_witness:
  "cardsAccounted (suitTable :: int GameManager)
   \<and> cardsAccounted (play (fourBids @ firstTrick) suitTable)
   \<and> handTotal (players (play (fourBids @ firstTrick) suitTable)) = 48
   \<and> length (currentTrick (play (fourBids @ firstTrick) suitTable)) = 4
   \<and> deck (play (fourBids @ firstTrick) suitTable) = []
   \<and> cardsAccounted (suitTable :: jsnum GameManager)
   \<and> cardsAccounted (stateOf (tryPlaceBid (lit ''ann'') (JNumber (Finite 3)) suitTable))
   \<and> cardCount (play (fourBids @ firstTrick)
        (stateOf (startGame (\<lambda>_. 0)
           (lobby 500 [lit ''ann'', lit ''bob'', lit ''cat'', lit ''dan''])))) = 52"
proof -
  have a: "cardsAccounted (suitTable :: int GameManager)"
    "cardsAccounted (suitTable :: jsnum GameManager)"
    by (simp_all add: cardsAccounted_def cardCount_def handTotal_def suitTable_def
        smallTable_def seatPlayer_def suitHand_def)
  have e: "handTotal (players (play (fourBids @ firstTrick) suitTable)) = 48"
    "length (currentTrick (play (fourBids @ firstTrick) suitTable)) = 4"
    "deck (play (fourBids @ firstTrick) suitTable) = []"
    by (simp_all add: play_evals handTotal_def)
  note T = cards_of_a_round[of "fourBids @ firstTrick" "\<lambda>_. 0" 500
      "[lit ''ann'', lit ''bob'', lit ''cat'', lit ''dan'']" suitTable suitTable
      "lit ''ann''" "JNumber (Finite 3)"]
  from T a e show ?thesis by blast
qed


end
